theory Spec2Isabelle
  imports Complex_Main
begin

section \<open>Python values\<close>

text \<open>
  The dictionaries of the backend hold \<open>None\<close>, integers and strings under the keys the
  functions below read (\<open>page_number\<close>, \<open>chunk_id\<close>, \<open>document_id\<close>, \<open>filename\<close>, ...).
  A dictionary is a partial map from its string keys. One \<open>char\<close> stands for one
  character of a Python \<open>str\<close>, so \<open>length\<close> is Python's \<open>len\<close>.
\<close>

datatype pyval = PNone | PInt int | PStr string

type_synonym pydict = "string \<rightharpoonup> pyval"

text \<open>Truth value of an object, as \<open>if x\<close> and \<open>x or y\<close> test it.\<close>

fun truthy :: "pyval \<Rightarrow> bool" where
  "truthy PNone = False"
| "truthy (PInt i) = (i \<noteq> 0)"
| "truthy (PStr s) = (s \<noteq> [])"

text \<open>\<open>str(n)\<close> for an integer: its decimal digits, with a sign when negative.\<close>

fun str_nat :: "nat \<Rightarrow> string" where
  "str_nat n = (if n < 10 then [''0123456789'' ! n]
                else str_nat (n div 10) @ [''0123456789'' ! (n mod 10)])"

declare str_nat.simps [simp del]

definition str_int :: "int \<Rightarrow> string" where
  "str_int i = (if i < 0 then CHR ''-'' # str_nat (nat (- i)) else str_nat (nat i))"

text \<open>What an f-string writes for a value: \<open>f"{None}"\<close> is the text \<open>None\<close>.\<close>

fun py_str :: "pyval \<Rightarrow> string" where
  "py_str PNone = ''None''"
| "py_str (PInt i) = str_int i"
| "py_str (PStr s) = s"

text \<open>\<open>d or {}\<close> for an optional dictionary argument.\<close>

definition or_empty :: "pydict option \<Rightarrow> pydict" where
  "or_empty d = (case d of None \<Rightarrow> Map.empty | Some m \<Rightarrow> m)"


section \<open>config.py\<close>

definition CHUNK_SIZE :: nat where
  "CHUNK_SIZE = 1000"

definition CHUNK_OVERLAP :: nat where
  "CHUNK_OVERLAP = 200"


section \<open>text\_chunker.py\<close>

subsection \<open>The text splitter\<close>

text \<open>
  Modelled from the spec: \<open>RecursiveCharacterTextSplitter.split_text\<close> of the package
  \<open>langchain_text_splitters\<close>, which \<open>TextChunker.__init__\<close> configures and whose code
  is not under src/. Section 4.1 of the specification: text is split at paragraph breaks,
  then line breaks, then spaces, then at any character position, and a finer boundary is
  tried only for a candidate piece that still exceeds the chunk size; pieces cut at
  character positions share \<open>chunk_overlap\<close> characters; no empty piece is emitted.
\<close>

fun pieces :: "string \<Rightarrow> string \<Rightarrow> string \<Rightarrow> string list" where
  "pieces sep acc [] = [acc]"
| "pieces sep acc (c # cs) =
     (if sep \<noteq> [] \<and> take (length sep) (c # cs) = sep
      then acc # pieces sep [] (drop (length sep) (c # cs))
      else pieces sep (acc @ [c]) cs)"

function windows :: "nat \<Rightarrow> nat \<Rightarrow> string \<Rightarrow> string list" where
  "windows cs ov t =
     (if length t \<le> cs \<or> cs \<le> ov then [t]
      else take cs t # windows cs ov (drop (cs - ov) t))"
  by pat_completeness auto
termination
  by (relation "measure (\<lambda>(cs, ov, t). length t)") auto

declare windows.simps [simp del]

fun split_rec :: "nat \<Rightarrow> nat \<Rightarrow> string list \<Rightarrow> string \<Rightarrow> string list" where
  "split_rec cs ov [] t = windows cs ov t"
| "split_rec cs ov (sep # seps) t =
     (if length t \<le> cs then [t]
      else if sep = [] then windows cs ov t
      else concat (map (split_rec cs ov seps) (pieces sep [] t)))"

definition split_text :: "nat \<Rightarrow> nat \<Rightarrow> string list \<Rightarrow> string \<Rightarrow> string list" where
  "split_text cs ov seps t = filter (\<lambda>p. p \<noteq> []) (split_rec cs ov seps t)"

subsection \<open>TextChunker\<close>

text \<open>
  A page is \<open>{"page_number": n, "text": t}\<close>; a chunk is \<open>{"text": t, "metadata": m}\<close>,
  where \<open>add_documents\<close> also accepts a chunk with no \<open>metadata\<close> key (\<open>None\<close> here).
\<close>

record page =
  page_text :: string
  page_number :: int

record chunk =
  chunk_text :: string
  chunk_metadata :: "pydict option"

record text_chunker =
  text_splitter :: "string \<Rightarrow> string list"

text \<open>\<open>separators=["\n\n", "\n", " ", ""]\<close>\<close>

definition separators :: "string list" where
  "separators = [[CHR 0x0A, CHR 0x0A], [CHR 0x0A], '' '', []]"

definition TextChunker_init :: "nat \<Rightarrow> nat \<Rightarrow> text_chunker" where
  "TextChunker_init chunk_size chunk_overlap =
     \<lparr>text_splitter = split_text chunk_size chunk_overlap separators\<rparr>"

text \<open>
  The inner loop of \<open>chunk_pages\<close> over the pieces of one page. The state is
  \<open>(all_chunks, chunk_id)\<close>. In the dictionary display
  \<open>{"page_number": ..., "chunk_id": ..., **(doc_metadata or {})}\<close> the unpacked mapping
  comes last, so its entries replace the two before it.
\<close>

fun chunk_loop :: "pydict \<Rightarrow> int \<Rightarrow> string list \<Rightarrow> chunk list \<times> int \<Rightarrow> chunk list \<times> int" where
  "chunk_loop md pn [] st = st"
| "chunk_loop md pn (c # cs) (all_chunks, chunk_id) =
     chunk_loop md pn cs
       (all_chunks @
          [\<lparr>chunk_text = c,
            chunk_metadata =
              Some ([''page_number'' \<mapsto> PInt pn, ''chunk_id'' \<mapsto> PInt chunk_id] ++ md)\<rparr>],
        chunk_id + 1)"

fun pages_loop :: "text_chunker \<Rightarrow> pydict \<Rightarrow> page list \<Rightarrow> chunk list \<times> int \<Rightarrow> chunk list \<times> int" where
  "pages_loop tc md [] st = st"
| "pages_loop tc md (p # ps) st =
     pages_loop tc md ps (chunk_loop md (page_number p) (text_splitter tc (page_text p)) st)"

definition chunk_pages :: "text_chunker \<Rightarrow> page list \<Rightarrow> pydict option \<Rightarrow> chunk list" where
  "chunk_pages tc pages doc_metadata = fst (pages_loop tc (or_empty doc_metadata) pages ([], 0))"

text \<open>The \<open>chunk_id\<close> entry of a chunk's metadata.\<close>

definition chunk_id_of :: "chunk \<Rightarrow> pyval option" where
  "chunk_id_of c = (case chunk_metadata c of None \<Rightarrow> None | Some m \<Rightarrow> m ''chunk_id'')"


section \<open>Errors\<close>

text \<open>
  An exception is a value. Each constructor carries the text that \<open>str(e)\<close> gives.
\<close>

datatype error =
    NotFoundError string
  | IndexFailure string
  | FileNotFoundError string
  | ParseFailure string
  | KeyError string
  | GenerationFailure string

fun error_message :: "error \<Rightarrow> string" where
  "error_message (NotFoundError s) = s"
| "error_message (IndexFailure s) = s"
| "error_message (FileNotFoundError s) = s"
| "error_message (ParseFailure s) = s"
| "error_message (KeyError s) = s"
| "error_message (GenerationFailure s) = s"


section \<open>vector\_store.py\<close>

subsection \<open>The vector index\<close>

text \<open>
  Modelled from the spec: the vector index capability (the \<open>chromadb\<close> package, whose code
  is not under src/), as sections 4.2 and 6 of the specification describe it. A collection
  is a named partition holding passages (id, text, metadata); a write upserts by id; a
  \<open>where\<close> filter selects the passages whose metadata equals the filter on every key of
  the filter; asking for a collection that does not exist raises. A write or a delete can
  fail for reasons outside the program (capacity, connectivity): the \<open>backend\<close> says
  whether this one does. The nearest-neighbour search with its embedding model is the
  function \<open>search\<close> of the backend. A float is carried as a real number; no function
  here computes with one except \<open>1 - distance\<close>.
\<close>

record entry =
  entry_id :: string
  entry_document :: string
  entry_metadata :: pydict

record collection =
  coll_metadata :: "string \<rightharpoonup> string"
  coll_entries :: "entry list"

type_synonym where_filter = "(string \<times> pyval) list"

record raw_result =
  raw_documents :: "string list list"
  raw_metadatas :: "pydict list list"
  raw_distances :: "real list list"
  raw_ids :: "string list list"

record backend =
  add_fault :: "error option"
  delete_fault :: "error option"
  search :: "collection \<Rightarrow> string \<Rightarrow> int \<Rightarrow> where_filter option \<Rightarrow> error + raw_result"

definition matches :: "where_filter \<Rightarrow> pydict \<Rightarrow> bool" where
  "matches w m = list_all (\<lambda>(k, v). m k = Some v) w"

fun upsert :: "entry \<Rightarrow> entry list \<Rightarrow> entry list" where
  "upsert e [] = [e]"
| "upsert e (x # xs) = (if entry_id x = entry_id e then e # xs else x # upsert e xs)"

definition collection_add ::
  "backend \<Rightarrow> string list \<Rightarrow> string list \<Rightarrow> pydict list \<Rightarrow> collection \<Rightarrow> error + collection" where
  "collection_add b ids documents metadatas c =
     (case add_fault b of
        Some e \<Rightarrow> Inl e
      | None \<Rightarrow>
          Inr (c\<lparr>coll_entries :=
                   foldl (\<lambda>es e. upsert e es) (coll_entries c)
                     (map (\<lambda>(i, d, m). \<lparr>entry_id = i, entry_document = d, entry_metadata = m\<rparr>)
                        (zip ids (zip documents metadatas)))\<rparr>))"

definition collection_delete :: "backend \<Rightarrow> where_filter \<Rightarrow> collection \<Rightarrow> error + collection" where
  "collection_delete b w c =
     (case delete_fault b of
        Some e \<Rightarrow> Inl e
      | None \<Rightarrow> Inr (c\<lparr>coll_entries := filter (\<lambda>e. \<not> matches w (entry_metadata e)) (coll_entries c)\<rparr>))"

subsection \<open>The state the backend works on\<close>

text \<open>
  The collections of the persistent client by name, the files by path, and the lines
  printed so far.
\<close>

record world =
  collections :: "string \<rightharpoonup> collection"
  files :: "string \<rightharpoonup> string"
  stdout :: "string list"

definition get_collection :: "world \<Rightarrow> string \<Rightarrow> error + collection" where
  "get_collection w name =
     (case collections w name of
        None \<Rightarrow> Inl (NotFoundError (''Collection '' @ name @ '' does not exist.''))
      | Some c \<Rightarrow> Inr c)"

subsection \<open>VectorStore\<close>

text \<open>
  \<open>create_collection\<close>: with \<open>replace\<close>, the collection is deleted first and a failure of
  that is ignored; then \<open>get_or_create_collection\<close>. The handle returned is the name.
\<close>

definition create_collection :: "world \<Rightarrow> string \<Rightarrow> bool \<Rightarrow> world" where
  "create_collection w collection_name replace =
     (let w1 = (if replace then w\<lparr>collections := (collections w)(collection_name := None)\<rparr> else w)
      in case collections w1 collection_name of
           Some c \<Rightarrow> w1
         | None \<Rightarrow>
             w1\<lparr>collections := (collections w1)(collection_name \<mapsto>
                   \<lparr>coll_metadata = [''hnsw:space'' \<mapsto> ''cosine''], coll_entries = []\<rparr>)\<rparr>)"

text \<open>
  The loop of \<open>add_documents\<close> over \<open>enumerate(chunks)\<close>; the state is
  \<open>(ids, documents, metadatas)\<close>.
\<close>

fun batch_loop ::
  "string \<Rightarrow> int \<Rightarrow> chunk list \<Rightarrow> string list \<times> string list \<times> pydict list
     \<Rightarrow> string list \<times> string list \<times> pydict list" where
  "batch_loop document_id i [] st = st"
| "batch_loop document_id i (chunk # rest) (ids, documents, metadatas) =
     batch_loop document_id (i + 1) rest
       (ids @ [document_id @ ''_chunk_'' @ str_int i],
        documents @ [chunk_text chunk],
        metadatas @ [(or_empty (chunk_metadata chunk))
                       (''document_id'' \<mapsto> PStr document_id, ''chunk_index'' \<mapsto> PInt i)])"

definition add_documents ::
  "backend \<Rightarrow> world \<Rightarrow> string \<Rightarrow> chunk list \<Rightarrow> string \<Rightarrow> (error + unit) \<times> world" where
  "add_documents b w collection_name chunks document_id =
     (let w1 = create_collection w collection_name False
      in case get_collection w1 collection_name of
           Inl e \<Rightarrow> (Inl e, w1)
         | Inr collection \<Rightarrow>
             (case batch_loop document_id 0 chunks ([], [], []) of
                (ids, documents, metadatas) \<Rightarrow>
                  (case collection_add b ids documents metadatas collection of
                     Inl e \<Rightarrow> (Inl e, w1)
                   | Inr c' \<Rightarrow>
                       (Inr (), w1\<lparr>collections := (collections w1)(collection_name \<mapsto> c')\<rparr>))))"

record query_result =
  qr_documents :: "string list"
  qr_metadatas :: "pydict list"
  qr_distances :: "real list"
  qr_ids :: "string list"

text \<open>\<open>xs[0] if xs else []\<close>\<close>

definition first_or_empty :: "'a list list \<Rightarrow> 'a list" where
  "first_or_empty xs = (case xs of [] \<Rightarrow> [] | x # _ \<Rightarrow> x)"

definition query ::
  "backend \<Rightarrow> world \<Rightarrow> string \<Rightarrow> string \<Rightarrow> int \<Rightarrow> where_filter option \<Rightarrow> error + query_result" where
  "query b w collection_name query_text n_results filter_dict =
     (case get_collection w collection_name of
        Inl e \<Rightarrow> Inr \<lparr>qr_documents = [], qr_metadatas = [], qr_distances = [], qr_ids = []\<rparr>
      | Inr collection \<Rightarrow>
          (case search b collection query_text n_results filter_dict of
             Inl e \<Rightarrow> Inl e
           | Inr results \<Rightarrow>
               Inr \<lparr>qr_documents = first_or_empty (raw_documents results),
                    qr_metadatas = first_or_empty (raw_metadatas results),
                    qr_distances = first_or_empty (raw_distances results),
                    qr_ids = first_or_empty (raw_ids results)\<rparr>))"

text \<open>
  \<open>delete_document\<close>: the body of the \<open>try\<close>, then the handler, which catches every
  exception, prints it and returns.
\<close>

definition delete_document_try :: "backend \<Rightarrow> world \<Rightarrow> string \<Rightarrow> string \<Rightarrow> (error + unit) \<times> world" where
  "delete_document_try b w collection_name document_id =
     (case get_collection w collection_name of
        Inl e \<Rightarrow> (Inl e, w)
      | Inr collection \<Rightarrow>
          (case collection_delete b [(''document_id'', PStr document_id)] collection of
             Inl e \<Rightarrow> (Inl e, w)
           | Inr c' \<Rightarrow> (Inr (), w\<lparr>collections := (collections w)(collection_name \<mapsto> c')\<rparr>)))"

definition delete_document :: "backend \<Rightarrow> world \<Rightarrow> string \<Rightarrow> string \<Rightarrow> (error + unit) \<times> world" where
  "delete_document b w collection_name document_id =
     (case delete_document_try b w collection_name document_id of
        (Inl e, w') \<Rightarrow>
          (Inr (), w'\<lparr>stdout := stdout w' @
                      [''Error deleting document '' @ document_id @ '': '' @ error_message e]\<rparr>)
      | (Inr u, w') \<Rightarrow> (Inr u, w'))"

definition get_collection_count :: "world \<Rightarrow> string \<Rightarrow> int" where
  "get_collection_count w collection_name =
     (case get_collection w collection_name of
        Inl e \<Rightarrow> 0
      | Inr collection \<Rightarrow> int (length (coll_entries collection)))"


section \<open>pdf\_parser.py\<close>

text \<open>
  What \<open>fitz.open\<close> gives for a file: the text of each page (\<open>page.get_text()\<close>) and
  \<open>doc.metadata\<close>, \<open>None\<close> when the library has none. The parser of the PDF bytes is
  outside the repository: \<open>fitz_open\<close> of the environment stands for it.
\<close>

record fitz_doc =
  fitz_pages :: "string list"
  fitz_metadata :: "(string \<rightharpoonup> string) option"

text \<open>
  The environment of a run: the PDF library, the clock (\<open>datetime.now().isoformat()\<close>),
  and \<open>pathlib\<close>: \<open>Path.name\<close>, \<open>Path.stem\<close> and the \<open>/\<close> of two paths. A path is its text.
\<close>

record env =
  fitz_open :: "string \<Rightarrow> error + fitz_doc"
  now_isoformat :: string
  path_name :: "string \<Rightarrow> string"
  path_stem :: "string \<Rightarrow> string"
  path_join :: "string \<Rightarrow> string \<Rightarrow> string"
  uploads_dir :: string

record pdf_data =
  pd_text :: string
  pd_pages :: "page list"
  pd_metadata :: "string \<rightharpoonup> string"
  pd_num_pages :: int

text \<open>\<open>sep.join(xs)\<close>\<close>

fun py_join :: "string \<Rightarrow> string list \<Rightarrow> string" where
  "py_join sep [] = []"
| "py_join sep [x] = x"
| "py_join sep (x # y # ys) = x @ sep @ py_join sep (y # ys)"

text \<open>\<open>m.get(k, d)\<close> on a dictionary of strings.\<close>

definition get_str :: "(string \<rightharpoonup> string) \<Rightarrow> string \<Rightarrow> string \<Rightarrow> string" where
  "get_str m k d = (case m k of None \<Rightarrow> d | Some v \<Rightarrow> v)"

text \<open>The loop over \<open>range(len(doc))\<close>; the state is \<open>(pages, full_text)\<close>.\<close>

fun extract_loop :: "int \<Rightarrow> string list \<Rightarrow> page list \<times> string list \<Rightarrow> page list \<times> string list" where
  "extract_loop page_num [] st = st"
| "extract_loop page_num (t # ts) (pages, full_text) =
     extract_loop (page_num + 1) ts
       (pages @ [\<lparr>page_text = t, page_number = page_num + 1\<rparr>], full_text @ [t])"

definition extract_text :: "env \<Rightarrow> world \<Rightarrow> string \<Rightarrow> error + pdf_data" where
  "extract_text ev w pdf_path =
     (case files w pdf_path of
        None \<Rightarrow> Inl (FileNotFoundError (''PDF file not found: '' @ pdf_path))
      | Some bytes \<Rightarrow>
          (case fitz_open ev bytes of
             Inl e \<Rightarrow> Inl e
           | Inr doc \<Rightarrow>
               (case extract_loop 0 (fitz_pages doc) ([], []) of
                  (pages, full_text) \<Rightarrow>
                    (let metadata = (case fitz_metadata doc of None \<Rightarrow> Map.empty | Some m \<Rightarrow> m)
                     in Inr \<lparr>pd_text = py_join [CHR 0x0A, CHR 0x0A] full_text,
                             pd_pages = pages,
                             pd_metadata =
                               [''title'' \<mapsto> get_str metadata ''title'' [],
                                ''author'' \<mapsto> get_str metadata ''author'' [],
                                ''subject'' \<mapsto> get_str metadata ''subject'' [],
                                ''creator'' \<mapsto> get_str metadata ''creator'' []],
                             pd_num_pages = int (length pages)\<rparr>))))"


section \<open>pdf\_processor.py\<close>

record processing_result =
  res_document_id :: string
  res_filename :: string
  res_num_pages :: int
  res_num_chunks :: int
  res_metadata :: pydict
  res_collection :: string
  res_status :: string

text \<open>The check mark that starts the last printed line, as its three UTF-8 bytes.\<close>

definition check_mark :: string where
  "check_mark = [CHR 0xE2, CHR 0x9C, CHR 0x93]"

text \<open>\<open>shutil.copy2(src, dst)\<close>\<close>

definition copy2 :: "world \<Rightarrow> string \<Rightarrow> string \<Rightarrow> (error + unit) \<times> world" where
  "copy2 w src dst =
     (case files w src of
        None \<Rightarrow> (Inl (FileNotFoundError src), w)
      | Some bytes \<Rightarrow> (Inr (), w\<lparr>files := (files w)(dst \<mapsto> bytes)\<rparr>))"

text \<open>
  \<open>process_pdf\<close>, step by step as the source numbers them. An exception leaves the
  function at once with the state reached so far.
\<close>

definition process_pdf ::
  "env \<Rightarrow> backend \<Rightarrow> text_chunker \<Rightarrow> world \<Rightarrow> string \<Rightarrow> string option \<Rightarrow> string
     \<Rightarrow> (error + processing_result) \<times> world" where
  "process_pdf ev b tc w pdf_path document_id_arg collection_name =
     (let document_id = (case document_id_arg of None \<Rightarrow> path_stem ev pdf_path | Some d \<Rightarrow> d);
          w1 = w\<lparr>stdout := stdout w @ [''Processing PDF: '' @ path_name ev pdf_path]\<rparr>
      in case extract_text ev w1 pdf_path of
           Inl e \<Rightarrow> (Inl e, w1)
         | Inr pdf \<Rightarrow>
             (let doc_metadata =
                    [''document_id'' \<mapsto> PStr document_id,
                     ''filename'' \<mapsto> PStr (path_name ev pdf_path),
                     ''title'' \<mapsto> PStr (get_str (pd_metadata pdf) ''title'' (path_stem ev pdf_path)),
                     ''author'' \<mapsto> PStr (get_str (pd_metadata pdf) ''author'' []),
                     ''num_pages'' \<mapsto> PInt (pd_num_pages pdf),
                     ''processed_at'' \<mapsto> PStr (now_isoformat ev)];
                  chunks = chunk_pages tc (pd_pages pdf) (Some doc_metadata)
              in case add_documents b w1 collection_name chunks document_id of
                   (Inl e, w2) \<Rightarrow> (Inl e, w2)
                 | (Inr u, w2) \<Rightarrow>
                     (let destination = path_join ev (uploads_dir ev) (document_id @ ''.pdf'')
                      in case (if pdf_path \<noteq> destination then copy2 w2 pdf_path destination
                               else (Inr (), w2)) of
                           (Inl e, w3) \<Rightarrow> (Inl e, w3)
                         | (Inr u', w3) \<Rightarrow>
                             (Inr \<lparr>res_document_id = document_id,
                                   res_filename = path_name ev pdf_path,
                                   res_num_pages = pd_num_pages pdf,
                                   res_num_chunks = int (length chunks),
                                   res_metadata = doc_metadata,
                                   res_collection = collection_name,
                                   res_status = ''success''\<rparr>,
                              w3\<lparr>stdout := stdout w3 @
                                    [check_mark @ '' Successfully processed: '' @ path_name ev pdf_path]\<rparr>))))"


section \<open>rag\_service.py\<close>

subsection \<open>Data\<close>

text \<open>
  A context chunk is the dictionary \<open>retrieve_context\<close> builds, with the keys \<open>text\<close>,
  \<open>page_number\<close>, \<open>document_id\<close>, \<open>filename\<close> and \<open>similarity\<close>. A field is \<open>None\<close> when
  the dictionary has no such key, and \<open>Some v\<close> when it holds \<open>v\<close> under the key, where
  \<open>v\<close> can be Python's \<open>None\<close> (\<open>PNone\<close>): \<open>chunk.get(k, d)\<close> tells the two apart.
\<close>

record context_chunk =
  cc_text :: "string option"
  cc_page_number :: "pyval option"
  cc_document_id :: "pyval option"
  cc_filename :: "pyval option"
  cc_similarity :: "real option"

text \<open>\<open>chunk.get(k, d)\<close> and \<open>chunk.get(k)\<close>\<close>

definition get_or :: "pyval \<Rightarrow> pyval option \<Rightarrow> pyval" where
  "get_or d x = (case x of None \<Rightarrow> d | Some v \<Rightarrow> v)"

definition dict_get :: "pydict \<Rightarrow> string \<Rightarrow> pyval" where
  "dict_get m k = get_or PNone (m k)"

text \<open>An entry of the sources list; \<open>src_similarity = None\<close> is Python's \<open>None\<close>.\<close>

record source =
  src_document_id :: pyval
  src_filename :: pyval
  src_page_number :: pyval
  src_similarity :: "real option"

record answer_result =
  ans_answer :: string
  ans_sources :: "source list"
  ans_context_used :: int

text \<open>An element of the stream: \<open>{"type": "content", "data": ...}\<close> or \<open>{"type": "sources", "data": {...}}\<close>.\<close>

datatype event = Content string | Sources "source list" int

fun event_type :: "event \<Rightarrow> string" where
  "event_type (Content d) = ''content''"
| "event_type (Sources s n) = ''sources''"

fun content_data :: "event \<Rightarrow> string" where
  "content_data (Content d) = d"
| "content_data (Sources s n) = []"

datatype message = SystemMessage string | HumanMessage string | AIMessage string

record turn =
  turn_role :: string
  turn_content :: string

text \<open>
  The text-generation capability (\<open>ChatGroq\<close>, outside the repository): \<open>invoke\<close> gives
  the content of the response or raises; \<open>stream\<close> gives the contents of the fragments
  it yields and, when it raises after them, the exception.
\<close>

record llm =
  llm_invoke :: "message list \<Rightarrow> error + string"
  llm_stream :: "message list \<Rightarrow> string list \<times> error option"

subsection \<open>RAGService\<close>

definition newline :: string where
  "newline = [CHR 0x0A]"

definition system_prompt :: string where
  "system_prompt =
     ''You are a helpful AI study assistant. You answer questions based on the provided document context.''
     @ newline @ newline
     @ ''Guidelines:'' @ newline
     @ ''- Answer questions accurately based on the provided context'' @ newline
     @ ''- If the context doesn'' @ [CHR 0x27] @ ''t contain enough information, say so'' @ newline
     @ ''- Cite page numbers when referencing specific information'' @ newline
     @ ''- Be concise but thorough'' @ newline
     @ ''- If asked about something not in the context, acknowledge the limitation''"

text \<open>\<open>retrieve_context\<close>: the loop over \<open>zip(documents, metadatas, distances)\<close>.\<close>

fun context_loop ::
  "(string \<times> pydict \<times> real) list \<Rightarrow> context_chunk list \<Rightarrow> context_chunk list" where
  "context_loop [] context_chunks = context_chunks"
| "context_loop ((doc, metadata, distance) # rest) context_chunks =
     context_loop rest
       (context_chunks @
          [\<lparr>cc_text = Some doc,
            cc_page_number = Some (dict_get metadata ''page_number''),
            cc_document_id = Some (dict_get metadata ''document_id''),
            cc_filename = Some (dict_get metadata ''filename''),
            cc_similarity = Some (1 - distance)\<rparr>])"

definition retrieve_context ::
  "backend \<Rightarrow> world \<Rightarrow> string \<Rightarrow> string \<Rightarrow> int \<Rightarrow> string option \<Rightarrow> error + context_chunk list" where
  "retrieve_context b w query_text collection_name n_results document_id =
     (let filter_dict =
            (case document_id of
               None \<Rightarrow> None
             | Some d \<Rightarrow> if d \<noteq> [] then Some [(''document_id'', PStr d)] else None)
      in case query b w collection_name query_text n_results filter_dict of
           Inl e \<Rightarrow> Inl e
         | Inr results \<Rightarrow>
             Inr (context_loop
                    (zip (qr_documents results) (zip (qr_metadatas results) (qr_distances results)))
                    []))"

text \<open>\<open>format_context\<close>: the loop over \<open>enumerate(context_chunks, 1)\<close>.\<close>

fun format_loop :: "int \<Rightarrow> context_chunk list \<Rightarrow> string list \<Rightarrow> error + string list" where
  "format_loop i [] context_parts = Inr context_parts"
| "format_loop i (chunk # rest) context_parts =
     (let page = get_or (PStr ''N/A'') (cc_page_number chunk);
          filename = get_or (PStr ''Unknown'') (cc_filename chunk)
      in case cc_text chunk of
           None \<Rightarrow> Inl (KeyError ''text'')
         | Some text \<Rightarrow>
             format_loop (i + 1) rest
               (context_parts @
                  [''[Source '' @ str_int i @ '' - '' @ py_str filename @ '', Page '' @ py_str page
                   @ '']'' @ newline @ text]))"

definition format_context :: "context_chunk list \<Rightarrow> error + string" where
  "format_context context_chunks =
     (if context_chunks = [] then Inr ''No relevant context found in the documents.''
      else case format_loop 1 context_chunks [] of
             Inl e \<Rightarrow> Inl e
           | Inr context_parts \<Rightarrow>
               Inr (py_join (newline @ newline @ ''---'' @ newline @ newline) context_parts))"

text \<open>
  \<open>generate_answer\<close>. The loop over \<open>conversation_history[-6:]\<close>, then the loop that
  extracts the sources, with the set \<open>seen\<close> of keys \<open>(document_id, page_number)\<close>.
\<close>

fun answer_history_loop :: "turn list \<Rightarrow> message list \<Rightarrow> message list" where
  "answer_history_loop [] messages = messages"
| "answer_history_loop (msg # rest) messages =
     answer_history_loop rest
       (if turn_role msg = ''user'' then messages @ [HumanMessage (turn_content msg)]
        else if turn_role msg = ''assistant'' then messages @ [AIMessage (turn_content msg)]
        else messages)"

fun answer_sources_loop ::
  "context_chunk list \<Rightarrow> source list \<times> (pyval \<times> pyval) set \<Rightarrow> source list \<times> (pyval \<times> pyval) set" where
  "answer_sources_loop [] st = st"
| "answer_sources_loop (chunk # rest) (sources, seen) =
     (let key = (get_or PNone (cc_document_id chunk), get_or PNone (cc_page_number chunk))
      in if key \<notin> seen \<and> truthy (get_or PNone (cc_page_number chunk))
         then answer_sources_loop rest
                (sources @
                   [\<lparr>src_document_id = get_or PNone (cc_document_id chunk),
                     src_filename = get_or PNone (cc_filename chunk),
                     src_page_number = get_or PNone (cc_page_number chunk),
                     src_similarity = cc_similarity chunk\<rparr>],
                 insert key seen)
         else answer_sources_loop rest (sources, seen))"

definition generate_answer ::
  "llm \<Rightarrow> string \<Rightarrow> context_chunk list \<Rightarrow> turn list option \<Rightarrow> error + answer_result" where
  "generate_answer model query_text context_chunks conversation_history =
     (case format_context context_chunks of
        Inl e \<Rightarrow> Inl e
      | Inr context \<Rightarrow>
          (let prompt = ''Context from documents:'' @ newline @ newline @ context @ newline @ newline
                 @ ''---'' @ newline @ newline @ ''Question: '' @ query_text @ newline @ newline
                 @ ''Answer the question based on the context above. If you reference specific information, mention the page number.'';
               messages = [SystemMessage system_prompt];
               messages = (case conversation_history of
                             None \<Rightarrow> messages
                           | Some history \<Rightarrow>
                               if history \<noteq> []
                               then answer_history_loop (drop (length history - 6) history) messages
                               else messages);
               messages = messages @ [HumanMessage prompt]
           in case llm_invoke model messages of
                Inl e \<Rightarrow> Inl e
              | Inr response_content \<Rightarrow>
                  Inr \<lparr>ans_answer = response_content,
                       ans_sources = fst (answer_sources_loop context_chunks ([], {})),
                       ans_context_used = int (length context_chunks)\<rparr>))"

text \<open>
  \<open>generate_answer_stream\<close>, a generator: the elements it yields, and the exception when
  it ends by one. Its two loops are written again in the source, and so here.
\<close>

fun stream_history_loop :: "turn list \<Rightarrow> message list \<Rightarrow> message list" where
  "stream_history_loop [] messages = messages"
| "stream_history_loop (msg # rest) messages =
     stream_history_loop rest
       (if turn_role msg = ''user'' then messages @ [HumanMessage (turn_content msg)]
        else if turn_role msg = ''assistant'' then messages @ [AIMessage (turn_content msg)]
        else messages)"

fun stream_sources_loop ::
  "context_chunk list \<Rightarrow> source list \<times> (pyval \<times> pyval) set \<Rightarrow> source list \<times> (pyval \<times> pyval) set" where
  "stream_sources_loop [] st = st"
| "stream_sources_loop (chunk # rest) (sources, seen) =
     (let key = (get_or PNone (cc_document_id chunk), get_or PNone (cc_page_number chunk))
      in if key \<notin> seen \<and> truthy (get_or PNone (cc_page_number chunk))
         then stream_sources_loop rest
                (sources @
                   [\<lparr>src_document_id = get_or PNone (cc_document_id chunk),
                     src_filename = get_or PNone (cc_filename chunk),
                     src_page_number = get_or PNone (cc_page_number chunk),
                     src_similarity = cc_similarity chunk\<rparr>],
                 insert key seen)
         else stream_sources_loop rest (sources, seen))"

text \<open>The loop over \<open>self.llm.stream(messages)\<close>: a fragment with empty content is skipped.\<close>

fun stream_loop :: "string list \<Rightarrow> event list \<Rightarrow> event list" where
  "stream_loop [] yielded = yielded"
| "stream_loop (chunk_content # rest) yielded =
     stream_loop rest (if chunk_content \<noteq> [] then yielded @ [Content chunk_content] else yielded)"

definition generate_answer_stream ::
  "llm \<Rightarrow> string \<Rightarrow> context_chunk list \<Rightarrow> turn list option \<Rightarrow> event list \<times> error option" where
  "generate_answer_stream model query_text context_chunks conversation_history =
     (case format_context context_chunks of
        Inl e \<Rightarrow> ([], Some e)
      | Inr context \<Rightarrow>
          (let prompt = ''Context from documents:'' @ newline @ newline @ context @ newline @ newline
                 @ ''---'' @ newline @ newline @ ''Question: '' @ query_text @ newline @ newline
                 @ ''Answer the question based on the context above. If you reference specific information, mention the page number.'';
               messages = [SystemMessage system_prompt];
               messages = (case conversation_history of
                             None \<Rightarrow> messages
                           | Some history \<Rightarrow>
                               if history \<noteq> []
                               then stream_history_loop (drop (length history - 6) history) messages
                               else messages);
               messages = messages @ [HumanMessage prompt];
               sources = fst (stream_sources_loop context_chunks ([], {}))
           in case llm_stream model messages of
                (fragments, Some e) \<Rightarrow> (stream_loop fragments [], Some e)
              | (fragments, None) \<Rightarrow>
                  (stream_loop fragments [] @ [Sources sources (int (length context_chunks))], None)))"

text \<open>
  A deterministic generation stub: for a message sequence it produces the fragments
  \<open>gen messages\<close>; the blocking call returns their concatenation, and neither call fails.
\<close>

definition deterministic_llm :: "(message list \<Rightarrow> string list) \<Rightarrow> llm" where
  "deterministic_llm gen =
     \<lparr>llm_invoke = (\<lambda>messages. Inr (concat (gen messages))),
      llm_stream = (\<lambda>messages. (gen messages, None))\<rparr>"


section \<open>Notions used in the statements\<close>

text \<open>The invariant of the loops of \<open>chunk_pages\<close>: the chunks so far are numbered from 0 and the counter is their number.\<close>

definition numbered :: "chunk list \<times> int \<Rightarrow> bool" where
  "numbered st = (map chunk_id_of (fst st) = map (\<lambda>i. Some (PInt (int i))) [0..<length (fst st)]
                  \<and> snd st = int (length (fst st)))"






section \<open>Concrete inputs for the examples\<close>

text \<open>
  A stub index whose search returns, in their order, the passages that match the filter,
  each at distance 0; a backend on which every write and delete succeeds, and one on
  which they fail.
\<close>

definition demo_search :: "collection \<Rightarrow> string \<Rightarrow> int \<Rightarrow> where_filter option \<Rightarrow> error + raw_result" where
  "demo_search c query_text n_results filter_dict =
     (let es = take (nat n_results)
                 (filter (\<lambda>e. case filter_dict of None \<Rightarrow> True | Some f \<Rightarrow> matches f (entry_metadata e))
                    (coll_entries c))
      in Inr \<lparr>raw_documents = [map entry_document es],
              raw_metadatas = [map entry_metadata es],
              raw_distances = [map (\<lambda>e. 0) es],
              raw_ids = [map entry_id es]\<rparr>)"

definition working_backend :: backend where
  "working_backend = \<lparr>add_fault = None, delete_fault = None, search = demo_search\<rparr>"

definition failing_backend :: backend where
  "failing_backend =
     \<lparr>add_fault = Some (IndexFailure ''index unavailable''),
      delete_fault = Some (IndexFailure ''index unavailable''),
      search = demo_search\<rparr>"

definition empty_world :: world where
  "empty_world = \<lparr>collections = Map.empty, files = Map.empty, stdout = []\<rparr>"

text \<open>What \<open>add_documents\<close> hands to the index for the chunk at position \<open>i\<close> of the batch.\<close>

definition stored_id :: "string \<Rightarrow> int \<Rightarrow> string" where
  "stored_id document_id i = document_id @ ''_chunk_'' @ str_int i"

definition stored_metadata :: "string \<Rightarrow> int \<Rightarrow> chunk \<Rightarrow> pydict" where
  "stored_metadata document_id i c =
     (or_empty (chunk_metadata c))(''document_id'' \<mapsto> PStr document_id, ''chunk_index'' \<mapsto> PInt i)"

text \<open>A store with one collection that holds a passage of document \<open>a\<close> and one of document \<open>b\<close>.\<close>

definition two_documents_world :: world where
  "two_documents_world =
     \<lparr>collections =
        [''documents'' \<mapsto>
           \<lparr>coll_metadata = [''hnsw:space'' \<mapsto> ''cosine''],
            coll_entries =
              [\<lparr>entry_id = ''a_chunk_0'', entry_document = ''alpha'',
                entry_metadata = [''page_number'' \<mapsto> PInt 1, ''document_id'' \<mapsto> PStr ''a'',
                                  ''chunk_index'' \<mapsto> PInt 0]\<rparr>,
               \<lparr>entry_id = ''b_chunk_0'', entry_document = ''beta'',
                entry_metadata = [''page_number'' \<mapsto> PInt 1, ''document_id'' \<mapsto> PStr ''b'',
                                  ''chunk_index'' \<mapsto> PInt 0]\<rparr>]\<rparr>],
      files = [''uploads/a.pdf'' \<mapsto> ''%PDF-a'', ''uploads/b.pdf'' \<mapsto> ''%PDF-b''],
      stdout = []\<rparr>"

text \<open>The passages of a batch, as the index receives them.\<close>

definition batch_entries :: "string \<Rightarrow> chunk list \<Rightarrow> entry list" where
  "batch_entries document_id chunks =
     map (\<lambda>i. \<lparr>entry_id = stored_id document_id (int i),
                entry_document = chunk_text (chunks ! i),
                entry_metadata = stored_metadata document_id (int i) (chunks ! i)\<rparr>)
       [0..<length chunks]"

text \<open>A batch of two chunks: one whose own metadata names another document, one with no metadata.\<close>

definition demo_chunks :: "chunk list" where
  "demo_chunks =
     [\<lparr>chunk_text = ''alpha'',
       chunk_metadata = Some [''document_id'' \<mapsto> PStr ''stale'', ''chunk_index'' \<mapsto> PInt 9,
                              ''page_number'' \<mapsto> PInt 1]\<rparr>,
      \<lparr>chunk_text = ''beta'', chunk_metadata = None\<rparr>]"

text \<open>
  An environment for the examples. \<open>posix_name\<close> and \<open>posix_stem\<close> are \<open>Path.name\<close> and
  \<open>Path.stem\<close> on paths with \<open>/\<close> as separator: the last component, and the last
  component without its last suffix. The PDF library opens the one file of
  \<open>demo_world\<close>, a document of two pages, the second empty, whose metadata names an
  author and no title.
\<close>

definition posix_name :: "string \<Rightarrow> string" where
  "posix_name p = rev (takeWhile (\<lambda>c. c \<noteq> CHR ''/'') (rev p))"

definition posix_stem :: "string \<Rightarrow> string" where
  "posix_stem p =
     (let n = posix_name p;
          suffix = takeWhile (\<lambda>c. c \<noteq> CHR ''.'') (rev n);
          stem = rev (drop (Suc (length suffix)) (rev n))
      in if CHR ''.'' \<notin> set n \<or> stem = [] \<or> suffix = [] then n else stem)"

definition demo_env :: env where
  "demo_env =
     \<lparr>fitz_open = (\<lambda>bytes. if bytes = ''%PDF''
                     then Inr \<lparr>fitz_pages = [''Hello world'', []],
                               fitz_metadata = Some [''format'' \<mapsto> ''PDF 1.7'', ''author'' \<mapsto> ''Ada'']\<rparr>
                     else Inl (ParseFailure ''cannot open'')),
      now_isoformat = ''2024-05-01T12:00:00'',
      path_name = posix_name,
      path_stem = posix_stem,
      path_join = (\<lambda>d n. d @ ''/'' @ n),
      uploads_dir = ''uploads''\<rparr>"

definition demo_world :: world where
  "demo_world = \<lparr>collections = Map.empty, files = [''inbox/notes.pdf'' \<mapsto> ''%PDF''], stdout = []\<rparr>"

text \<open>
  A generation stub that answers every message sequence with three fragments, the middle
  one empty; the retrieved chunks of the source-deduplication example of the
  specification; a chunk whose page number is 0; and the chunk \<open>retrieve_context\<close>
  builds for a passage whose stored metadata has no \<open>page_number\<close> and no \<open>filename\<close>.
\<close>

definition stub_llm :: llm where
  "stub_llm = deterministic_llm (\<lambda>messages. [''The '', [], ''answer''])"

definition example_chunks :: "context_chunk list" where
  "example_chunks =
     [\<lparr>cc_text = Some ''first'', cc_page_number = Some (PInt 1),
       cc_document_id = Some (PStr ''doc1''), cc_filename = Some (PStr ''doc1.pdf''),
       cc_similarity = Some (9 / 10)\<rparr>,
      \<lparr>cc_text = Some ''second'', cc_page_number = Some (PInt 1),
       cc_document_id = Some (PStr ''doc1''), cc_filename = Some (PStr ''doc1.pdf''),
       cc_similarity = Some (7 / 10)\<rparr>,
      \<lparr>cc_text = Some ''third'', cc_page_number = Some (PInt 2),
       cc_document_id = Some (PStr ''doc1''), cc_filename = Some (PStr ''doc1.pdf''),
       cc_similarity = Some (6 / 10)\<rparr>]"


definition unlabelled_chunk :: context_chunk where
  "unlabelled_chunk =
     \<lparr>cc_text = Some ''beta'', cc_page_number = Some PNone,
      cc_document_id = Some (PStr ''notes''), cc_filename = Some PNone,
      cc_similarity = Some 1\<rparr>"

section \<open>Properties of the chunker\<close>

lemma chunk_loop_counter:
  "snd (chunk_loop md pn cs (acc, n)) = n + int (length cs)"
  by (induction cs arbitrary: acc n) simp_all

lemma chunk_loop_length:
  "length (fst (chunk_loop md pn cs (acc, n))) = length acc + length cs"
  by (induction cs arbitrary: acc n) simp_all

lemma upt_shift_ids:
  "Some (PInt n) # map (\<lambda>i. Some (PInt (n + 1 + int i))) [0..<k]
     = map (\<lambda>i. Some (PInt (n + int i))) [0..<Suc k]"
proof -
  have "[0..<Suc k] = 0 # map Suc [0..<k]"
    by (simp add: upt_conv_Cons map_Suc_upt del: upt_Suc)
  then show ?thesis
    by (simp add: comp_def del: upt_Suc)
qed

lemma chunk_loop_ids:
  assumes "md ''chunk_id'' = None"
  shows "map chunk_id_of (fst (chunk_loop md pn cs (acc, n)))
           = map chunk_id_of acc @ map (\<lambda>i. Some (PInt (n + int i))) [0..<length cs]"
proof (induction cs arbitrary: acc n)
  case Nil
  show ?case by simp
next
  case (Cons c cs)
  have item: "chunk_id_of \<lparr>chunk_text = c, chunk_metadata =
      Some ([''page_number'' \<mapsto> PInt pn, ''chunk_id'' \<mapsto> PInt n] ++ md)\<rparr> = Some (PInt n)"
    using assms by (simp add: chunk_id_of_def map_add_def)
  show ?case
    using Cons.IH [of "acc @ [\<lparr>chunk_text = c, chunk_metadata =
      Some ([''page_number'' \<mapsto> PInt pn, ''chunk_id'' \<mapsto> PInt n] ++ md)\<rparr>]" "n + 1"]
    by (simp add: item upt_shift_ids del: upt_Suc)
qed

lemma upt_split_ids:
  "map (\<lambda>i. Some (PInt (int i))) [0..<a + b]
     = map (\<lambda>i. Some (PInt (int i))) [0..<a] @ map (\<lambda>i. Some (PInt (int a + int i))) [0..<b]"
proof -
  have "[0..<a + b] = [0..<a] @ [a..<a + b]"
    by (rule upt_add_eq_append) simp
  moreover have "[a..<a + b] = map (\<lambda>i. i + a) [0..<b]"
    by (simp only: map_add_upt add.commute)
  ultimately have "[0..<a + b] = [0..<a] @ map (\<lambda>i. i + a) [0..<b]"
    by (simp only:)
  then show ?thesis
    by (simp only: map_append map_map comp_def of_nat_add add.commute)
qed

lemma numbered_chunk_loop:
  assumes "md ''chunk_id'' = None" and "numbered (acc, n)"
  shows "numbered (chunk_loop md pn cs (acc, n))"
proof -
  have n: "n = int (length acc)"
    and ids: "map chunk_id_of acc = map (\<lambda>i. Some (PInt (int i))) [0..<length acc]"
    using assms(2) by (simp_all add: numbered_def)
  have step: "map chunk_id_of (fst (chunk_loop md pn cs (acc, int (length acc))))
          = map chunk_id_of acc @ map (\<lambda>i. Some (PInt (int (length acc) + int i))) [0..<length cs]"
    using assms(1) by (rule chunk_loop_ids)
  have "map chunk_id_of (fst (chunk_loop md pn cs (acc, int (length acc))))
          = map (\<lambda>i. Some (PInt (int i))) [0..<length acc + length cs]"
    unfolding step ids upt_split_ids ..
  then show ?thesis
    unfolding n by (simp add: numbered_def chunk_loop_length chunk_loop_counter)
qed

lemma numbered_pages_loop:
  assumes "md ''chunk_id'' = None"
  shows "numbered st \<Longrightarrow> numbered (pages_loop tc md ps st)"
proof (induction ps arbitrary: st)
  case Nil
  then show ?case by simp
next
  case (Cons p ps)
  obtain acc n where st: "st = (acc, n)" by (cases st)
  have "numbered (chunk_loop md (page_number p) (text_splitter tc (page_text p)) (acc, n))"
    using assms Cons.prems unfolding st by (rule numbered_chunk_loop)
  then have "numbered (pages_loop tc md ps
      (chunk_loop md (page_number p) (text_splitter tc (page_text p)) (acc, n)))"
    by (rule Cons.IH)
  then show ?case by (simp add: st)
qed

lemma pages_loop_append:
  "pages_loop tc md (ps @ qs) st = pages_loop tc md qs (pages_loop tc md ps st)"
  by (induction ps arbitrary: st) simp_all


lemma split_text_short:
  "t \<noteq> [] \<Longrightarrow> length t \<le> cs \<Longrightarrow> split_text cs ov separators t = [t]"
  by (simp add: split_text_def separators_def)

lemma split_text_empty: "split_text cs ov separators [] = []"
  by (simp add: split_text_def separators_def)

text \<open>
  Claim C2, as amended. For every list of pages and every document metadata that has no
  \<open>chunk_id\<close> key (or no document metadata at all), the \<open>chunk_id\<close> values of the chunks
  that \<open>chunk_pages\<close> returns are exactly 0, 1, 2, ... in output order: the counter is
  shared by all pages and never reset. This holds for every splitter.
\<close>

theorem chunk_pages_chunk_ids:
  assumes "or_empty doc_metadata ''chunk_id'' = None"
  shows "map chunk_id_of (chunk_pages tc pages doc_metadata)
           = map (\<lambda>i. Some (PInt (int i))) [0..<length (chunk_pages tc pages doc_metadata)]"
proof -
  have "numbered ([], 0)"
    by (simp add: numbered_def)
  with assms have "numbered (pages_loop tc (or_empty doc_metadata) pages ([], 0))"
    by (rule numbered_pages_loop)
  then show ?thesis
    by (simp add: numbered_def chunk_pages_def)
qed

text \<open>The statement at a document of two pages, with the metadata of a file name.\<close>

theorem chunk_pages_chunk_ids_witness:
  "or_empty (Some [''filename'' \<mapsto> PStr ''a.pdf'']) ''chunk_id'' = None
   \<and> map chunk_id_of (chunk_pages (TextChunker_init CHUNK_SIZE CHUNK_OVERLAP)
        [\<lparr>page_text = ''ab'', page_number = 1\<rparr>, \<lparr>page_text = ''c'', page_number = 2\<rparr>]
        (Some [''filename'' \<mapsto> PStr ''a.pdf'']))
      = [Some (PInt 0), Some (PInt 1)]"
proof -
  have h: "or_empty (Some [''filename'' \<mapsto> PStr ''a.pdf'']) ''chunk_id'' = None"
    by (simp add: or_empty_def)
  have len: "length (chunk_pages (TextChunker_init CHUNK_SIZE CHUNK_OVERLAP)
        [\<lparr>page_text = ''ab'', page_number = 1\<rparr>, \<lparr>page_text = ''c'', page_number = 2\<rparr>]
        (Some [''filename'' \<mapsto> PStr ''a.pdf''])) = 2"
    by (simp add: chunk_pages_def TextChunker_init_def CHUNK_SIZE_def split_text_short)
  have two: "[0..<2] = [0, Suc 0]"
    by (simp add: upt_conv_Cons)
  show ?thesis
    using h chunk_pages_chunk_ids [OF h, of "TextChunker_init CHUNK_SIZE CHUNK_OVERLAP"
        "[\<lparr>page_text = ''ab'', page_number = 1\<rparr>, \<lparr>page_text = ''c'', page_number = 2\<rparr>]"]
    by (simp add: len two)
qed

text \<open>
  Claim C2 as stated fails: a document metadata with a \<open>chunk_id\<close> key replaces the
  counter in every chunk, since the unpacked mapping comes last in the dictionary display.
  The one chunk of a one-page document gets the \<open>chunk_id\<close> 7 of the metadata, not 0.
\<close>

theorem chunk_pages_chunk_ids_overridden:
  "map chunk_id_of (chunk_pages (TextChunker_init CHUNK_SIZE CHUNK_OVERLAP)
      [\<lparr>page_text = ''a'', page_number = 1\<rparr>] (Some [''chunk_id'' \<mapsto> PInt 7]))
     = [Some (PInt 7)]
   \<and> map chunk_id_of (chunk_pages (TextChunker_init CHUNK_SIZE CHUNK_OVERLAP)
      [\<lparr>page_text = ''a'', page_number = 1\<rparr>] (Some [''chunk_id'' \<mapsto> PInt 7]))
     \<noteq> [Some (PInt 0)]"
  by (simp add: chunk_pages_def TextChunker_init_def CHUNK_SIZE_def split_text_short
      or_empty_def chunk_id_of_def)

text \<open>
  Claim C5. With the chunker that \<open>TextChunker.__init__\<close> configures, a page whose text is
  not empty and no longer than the chunk size gives, alone in the list, exactly one chunk,
  whose text is the text of the page, character for character; and a page with empty
  text adds no chunk, wherever it stands in the list.
\<close>

theorem chunk_pages_short_page:
  "(page_text P \<noteq> [] \<and> length (page_text P) \<le> chunk_size \<longrightarrow>
      chunk_pages (TextChunker_init chunk_size chunk_overlap) [P] doc_metadata
        = [\<lparr>chunk_text = page_text P,
             chunk_metadata = Some ([''page_number'' \<mapsto> PInt (page_number P), ''chunk_id'' \<mapsto> PInt 0]
                                      ++ or_empty doc_metadata)\<rparr>])
   \<and> (page_text P = [] \<longrightarrow>
      chunk_pages (TextChunker_init chunk_size chunk_overlap) (ps @ P # qs) doc_metadata
        = chunk_pages (TextChunker_init chunk_size chunk_overlap) (ps @ qs) doc_metadata)"
  by (simp add: chunk_pages_def TextChunker_init_def split_text_short split_text_empty
      pages_loop_append)

text \<open>The statement at the page \<open>hello\<close> and at an empty second page.\<close>

theorem chunk_pages_short_page_witness:
  "(page_text \<lparr>page_text = ''hello'', page_number = 3\<rparr> \<noteq> []
      \<and> length (page_text \<lparr>page_text = ''hello'', page_number = 3\<rparr>) \<le> CHUNK_SIZE)
   \<and> chunk_pages (TextChunker_init CHUNK_SIZE CHUNK_OVERLAP)
        [\<lparr>page_text = ''hello'', page_number = 3\<rparr>] None
        = [\<lparr>chunk_text = ''hello'',
             chunk_metadata = Some ([''page_number'' \<mapsto> PInt 3, ''chunk_id'' \<mapsto> PInt 0] ++ Map.empty)\<rparr>]
   \<and> page_text \<lparr>page_text = [], page_number = 2\<rparr> = []
   \<and> chunk_pages (TextChunker_init CHUNK_SIZE CHUNK_OVERLAP)
        ([\<lparr>page_text = ''hello'', page_number = 1\<rparr>] @ \<lparr>page_text = [], page_number = 2\<rparr> # []) None
        = chunk_pages (TextChunker_init CHUNK_SIZE CHUNK_OVERLAP)
        ([\<lparr>page_text = ''hello'', page_number = 1\<rparr>] @ []) None"
  using chunk_pages_short_page [of "\<lparr>page_text = ''hello'', page_number = 3\<rparr>" CHUNK_SIZE
      CHUNK_OVERLAP None]
    chunk_pages_short_page [of "\<lparr>page_text = [], page_number = 2\<rparr>" CHUNK_SIZE CHUNK_OVERLAP
      None "[\<lparr>page_text = ''hello'', page_number = 1\<rparr>]" "[]"]
  by (simp add: CHUNK_SIZE_def or_empty_def)


section \<open>Properties of the vector store\<close>

lemma upt_Suc_shift: "[0..<Suc k] = 0 # map Suc [0..<k]"
  by (simp add: upt_conv_Cons map_Suc_upt del: upt_Suc)

lemma batch_loop_eq:
  "batch_loop did i cs (ids, docs, metas) =
     (ids @ map (\<lambda>k. stored_id did (i + int k)) [0..<length cs],
      docs @ map chunk_text cs,
      metas @ map (\<lambda>k. stored_metadata did (i + int k) (cs ! k)) [0..<length cs])"
proof (induction cs arbitrary: i ids docs metas)
  case Nil
  show ?case by simp
next
  case (Cons c cs)
  have step: "batch_loop did i (c # cs) (ids, docs, metas) =
      batch_loop did (i + 1) cs
        (ids @ [stored_id did i], docs @ [chunk_text c], metas @ [stored_metadata did i c])"
    by (simp add: stored_id_def stored_metadata_def)
  show ?case
    unfolding step Cons.IH
    by (simp add: upt_Suc_shift comp_def add.assoc del: upt_Suc)
qed

lemma matches_document_id:
  "matches [(''document_id'', PStr did)] m = (m ''document_id'' = Some (PStr did))"
  by (simp add: matches_def)

text \<open>
  Claim C6. For a collection name that the store does not hold, and every query text,
  number of results and filter, \<open>query\<close> returns the dictionary of four empty lists
  and raises nothing, whatever the index would do.
\<close>

theorem query_absent_collection:
  assumes "collections w collection_name = None"
  shows "query b w collection_name query_text n_results filter_dict
           = Inr \<lparr>qr_documents = [], qr_metadatas = [], qr_distances = [], qr_ids = []\<rparr>"
  using assms by (simp add: query_def get_collection_def)

text \<open>
  The statement at a store with no collection, on a backend whose every write fails.
\<close>

theorem query_absent_collection_witness:
  "collections empty_world ''documents'' = None
   \<and> query failing_backend empty_world ''documents'' ''what is a monad'' 5
        (Some [(''document_id'', PStr ''notes'')])
      = Inr \<lparr>qr_documents = [], qr_metadatas = [], qr_distances = [], qr_ids = []\<rparr>"
proof -
  have h: "collections empty_world ''documents'' = None"
    by (simp add: empty_world_def)
  show ?thesis
    using h query_absent_collection [OF h] by simp
qed

lemma delete_document_try_absent:
  "collections w name = None \<Longrightarrow> \<exists>e. delete_document_try b w name did = (Inl e, w)"
  by (simp add: delete_document_try_def get_collection_def)

lemma delete_document_try_fault:
  "collections w name = Some c \<Longrightarrow> delete_fault b = Some e
     \<Longrightarrow> delete_document_try b w name did = (Inl e, w)"
  by (simp add: delete_document_try_def get_collection_def collection_delete_def)

lemma delete_document_try_ok:
  "collections w name = Some c \<Longrightarrow> delete_fault b = None
     \<Longrightarrow> delete_document_try b w name did =
          (Inr (), w\<lparr>collections := (collections w)(name \<mapsto>
             c\<lparr>coll_entries := filter (\<lambda>e. entry_metadata e ''document_id'' \<noteq> Some (PStr did))
                                  (coll_entries c)\<rparr>)\<rparr>)"
  by (simp add: delete_document_try_def get_collection_def collection_delete_def matches_document_id)

lemma delete_document_absent:
  "collections w name = None \<Longrightarrow>
     delete_document b w name did =
       (Inr (), w\<lparr>stdout := stdout w @
          [''Error deleting document '' @ did @ '': '' @ ''Collection '' @ name @ '' does not exist.'']\<rparr>)"
  by (simp add: delete_document_def delete_document_try_def get_collection_def)

lemma delete_document_fault:
  "collections w name = Some c \<Longrightarrow> delete_fault b = Some e \<Longrightarrow>
     delete_document b w name did =
       (Inr (), w\<lparr>stdout := stdout w @
          [''Error deleting document '' @ did @ '': '' @ error_message e]\<rparr>)"
  by (simp add: delete_document_def delete_document_try_fault [where c = c and e = e])

lemma delete_document_ok:
  "collections w name = Some c \<Longrightarrow> delete_fault b = None \<Longrightarrow>
     delete_document b w name did =
       (Inr (), w\<lparr>collections := (collections w)(name \<mapsto>
          c\<lparr>coll_entries := filter (\<lambda>e. entry_metadata e ''document_id'' \<noteq> Some (PStr did))
                               (coll_entries c)\<rparr>)\<rparr>)"
  by (simp add: delete_document_def delete_document_try_ok)


lemma delete_document_returns: "fst (delete_document b w name did) = Inr ()"
  by (simp add: delete_document_def delete_document_try_def get_collection_def
      collection_delete_def split: option.splits)

lemma delete_document_files: "files (snd (delete_document b w name did)) = files w"
  by (simp add: delete_document_def delete_document_try_def get_collection_def
      collection_delete_def split: option.splits)

lemma delete_document_unchanged:
  assumes "collections w name = None \<or> delete_fault b \<noteq> None"
  shows "collections (snd (delete_document b w name did)) = collections w
         \<and> length (stdout (snd (delete_document b w name did))) = Suc (length (stdout w))"
  using assms
  by (auto simp add: delete_document_def delete_document_try_def get_collection_def
      collection_delete_def split: option.splits)

lemma delete_document_twice:
  assumes "delete_fault b = None \<or> delete_fault b' \<noteq> None \<or> collections w name = None"
  shows "collections (snd (delete_document b' (snd (delete_document b w name did)) name did))
           = collections (snd (delete_document b w name did))"
proof (cases "delete_fault b' \<noteq> None")
  case True
  then show ?thesis
    by (simp add: delete_document_unchanged)
next
  case second_ok: False
  show ?thesis
  proof (cases "collections w name")
    case None
    then have "collections (snd (delete_document b w name did)) name = None"
      by (simp add: delete_document_unchanged)
    then show ?thesis
      by (simp add: delete_document_unchanged)
  next
    case (Some c)
    from assms second_ok Some have first_ok: "delete_fault b = None"
      by auto
    let ?c' = "c\<lparr>coll_entries := filter (\<lambda>e. entry_metadata e ''document_id'' \<noteq> Some (PStr did))
                                   (coll_entries c)\<rparr>"
    let ?w' = "w\<lparr>collections := (collections w)(name \<mapsto> ?c')\<rparr>"
    have first: "delete_document b w name did = (Inr (), ?w')"
      using Some first_ok by (rule delete_document_ok)
    have held: "collections ?w' name = Some ?c'"
      by simp
    from second_ok have b': "delete_fault b' = None"
      by simp
    show ?thesis
      unfolding first by (simp add: delete_document_ok [OF held b'])
  qed
qed

text \<open>
  Claim C8. \<open>delete_document\<close> never raises: its result is always a normal return, and
  it touches no file. When the collection exists and the index does the delete, the
  collection loses exactly the passages whose metadata \<open>document_id\<close> is the given id and
  nothing else changes. When the collection is absent or the delete fails, the
  collections are as before and one line is printed. Repeating the call leaves the
  collections as the first call left them, so the call is safe to repeat.
\<close>

theorem delete_document_best_effort:
  "fst (delete_document b w name did) = Inr ()
   \<and> files (snd (delete_document b w name did)) = files w
   \<and> (\<forall>c. collections w name = Some c \<and> delete_fault b = None \<longrightarrow>
         snd (delete_document b w name did) =
           w\<lparr>collections := (collections w)(name \<mapsto>
              c\<lparr>coll_entries := filter (\<lambda>e. entry_metadata e ''document_id'' \<noteq> Some (PStr did))
                                   (coll_entries c)\<rparr>)\<rparr>)
   \<and> (collections w name = None \<or> delete_fault b \<noteq> None \<longrightarrow>
         collections (snd (delete_document b w name did)) = collections w
         \<and> length (stdout (snd (delete_document b w name did))) = Suc (length (stdout w)))
   \<and> (delete_fault b = None \<or> delete_fault b' \<noteq> None \<or> collections w name = None \<longrightarrow>
         collections (snd (delete_document b' (snd (delete_document b w name did)) name did))
           = collections (snd (delete_document b w name did)))"
proof -
  have removed: "\<forall>c. collections w name = Some c \<and> delete_fault b = None \<longrightarrow>
         snd (delete_document b w name did) =
           w\<lparr>collections := (collections w)(name \<mapsto>
              c\<lparr>coll_entries := filter (\<lambda>e. entry_metadata e ''document_id'' \<noteq> Some (PStr did))
                                   (coll_entries c)\<rparr>)\<rparr>"
    by (simp add: delete_document_ok)
  have kept: "collections w name = None \<or> delete_fault b \<noteq> None \<longrightarrow>
         collections (snd (delete_document b w name did)) = collections w
         \<and> length (stdout (snd (delete_document b w name did))) = Suc (length (stdout w))"
    using delete_document_unchanged [of w name b did] by blast
  have twice: "delete_fault b = None \<or> delete_fault b' \<noteq> None \<or> collections w name = None \<longrightarrow>
         collections (snd (delete_document b' (snd (delete_document b w name did)) name did))
           = collections (snd (delete_document b w name did))"
    using delete_document_twice [of b b' w name did] by blast
  show ?thesis
    using delete_document_returns [of b w name did] delete_document_files [of b w name did]
      removed kept twice
    by blast
qed

text \<open>
  The statement at a store holding a passage of document \<open>a\<close> and one of document \<open>b\<close>:
  on a working index the passage of \<open>a\<close> goes and that of \<open>b\<close> stays; on a failing index
  nothing changes and one line is printed; a second call changes nothing.
\<close>

theorem delete_document_best_effort_witness:
  "(collections two_documents_world ''documents'' \<noteq> None \<and> delete_fault working_backend = None)
   \<and> fst (delete_document working_backend two_documents_world ''documents'' ''a'') = Inr ()
   \<and> map (map entry_id \<circ> coll_entries)
        (case collections (snd (delete_document working_backend two_documents_world ''documents'' ''a''))
                ''documents'' of None \<Rightarrow> [] | Some c \<Rightarrow> [c])
      = [[''b_chunk_0'']]
   \<and> delete_fault failing_backend \<noteq> None
   \<and> fst (delete_document failing_backend two_documents_world ''documents'' ''a'') = Inr ()
   \<and> collections (snd (delete_document failing_backend two_documents_world ''documents'' ''a''))
      = collections two_documents_world
   \<and> length (stdout (snd (delete_document failing_backend two_documents_world ''documents'' ''a''))) = 1
   \<and> collections (snd (delete_document working_backend
          (snd (delete_document working_backend two_documents_world ''documents'' ''a''))
          ''documents'' ''a''))
      = collections (snd (delete_document working_backend two_documents_world ''documents'' ''a''))"
proof -
  have ok: "delete_fault working_backend = None"
    by (simp add: working_backend_def)
  have bad: "delete_fault failing_backend \<noteq> None"
    by (simp add: failing_backend_def)
  have held: "collections two_documents_world ''documents'' \<noteq> None"
    by (simp add: two_documents_world_def)
  have out: "stdout two_documents_world = []"
    by (simp add: two_documents_world_def)
  note w = delete_document_best_effort [of working_backend two_documents_world "''documents''" "''a''"
      working_backend]
  note f = delete_document_best_effort [of failing_backend two_documents_world "''documents''" "''a''"
      failing_backend]
  have removed: "map (map entry_id \<circ> coll_entries)
        (case collections (snd (delete_document working_backend two_documents_world ''documents'' ''a''))
                ''documents'' of None \<Rightarrow> [] | Some c \<Rightarrow> [c]) = [[''b_chunk_0'']]"
    using w ok by (simp add: two_documents_world_def)
  show ?thesis
    using w f ok bad held out removed by simp
qed

lemma batch_loop_start:
  "batch_loop did 0 chunks ([], [], []) =
     (map (\<lambda>k. stored_id did (int k)) [0..<length chunks],
      map chunk_text chunks,
      map (\<lambda>k. stored_metadata did (int k) (chunks ! k)) [0..<length chunks])"
  by (simp add: batch_loop_eq)

lemma stored_metadata_keys:
  "stored_metadata did i c ''document_id'' = Some (PStr did)"
  "stored_metadata did i c ''chunk_index'' = Some (PInt i)"
  by (simp_all add: stored_metadata_def)

lemma batch_zip:
  "map (\<lambda>(i, d, m). \<lparr>entry_id = i, entry_document = d, entry_metadata = m\<rparr>)
     (zip (map (\<lambda>k. stored_id did (int k)) [0..<length chunks])
        (zip (map chunk_text chunks)
           (map (\<lambda>k. stored_metadata did (int k) (chunks ! k)) [0..<length chunks])))
   = batch_entries did chunks"
  by (rule nth_equalityI) (simp_all add: batch_entries_def)

lemma set_upsert: "set (upsert e es) \<subseteq> insert e (set es)"
  by (induction es) auto

lemma set_foldl_upsert:
  "set (foldl (\<lambda>es e. upsert e es) es new) \<subseteq> set es \<union> set new"
proof (induction new arbitrary: es)
  case Nil
  show ?case by simp
next
  case (Cons e new)
  have "set (foldl (\<lambda>es e. upsert e es) (upsert e es) new) \<subseteq> set (upsert e es) \<union> set new"
    by (rule Cons.IH)
  also have "\<dots> \<subseteq> insert e (set es) \<union> set new"
    using set_upsert [of e es] by blast
  finally show ?case by auto
qed

lemma create_collection_held:
  "\<exists>c. collections (create_collection w name False) name = Some c
       \<and> coll_entries c = (case collections w name of None \<Rightarrow> [] | Some c0 \<Rightarrow> coll_entries c0)"
  by (simp add: create_collection_def split: option.splits)

lemma add_documents_stored:
  assumes "add_documents b w name chunks did = (Inr (), w')"
  shows "\<exists>c'. collections w' name = Some c'
          \<and> set (coll_entries c') \<subseteq>
              set (case collections w name of None \<Rightarrow> [] | Some c0 \<Rightarrow> coll_entries c0)
              \<union> set (batch_entries did chunks)"
proof -
  obtain c where c: "collections (create_collection w name False) name = Some c"
    and old: "coll_entries c = (case collections w name of None \<Rightarrow> [] | Some c0 \<Rightarrow> coll_entries c0)"
    using create_collection_held [of w name] by blast
  have ok: "add_fault b = None"
    using assms c
    by (simp add: add_documents_def Let_def get_collection_def batch_loop_start collection_add_def
        split: option.splits)
  let ?c' = "c\<lparr>coll_entries := foldl (\<lambda>es e. upsert e es) (coll_entries c) (batch_entries did chunks)\<rparr>"
  have "w' = (create_collection w name False)\<lparr>collections :=
      (collections (create_collection w name False))(name \<mapsto> ?c')\<rparr>"
    using assms c ok
    by (simp add: add_documents_def Let_def get_collection_def batch_loop_start collection_add_def batch_zip)
  then have "collections w' name = Some ?c'"
    by simp
  moreover have "set (coll_entries ?c') \<subseteq>
      set (case collections w name of None \<Rightarrow> [] | Some c0 \<Rightarrow> coll_entries c0)
      \<union> set (batch_entries did chunks)"
    using set_foldl_upsert [of "coll_entries c" "batch_entries did chunks"] by (simp add: old)
  ultimately show ?thesis by blast
qed


lemma digit_inj:
  assumes "a < 10" and "b < 10" and "''0123456789'' ! a = ''0123456789'' ! b"
  shows "a = b"
proof -
  have "distinct ''0123456789''"
    by simp
  moreover have "a < length ''0123456789''" and "b < length ''0123456789''"
    using assms by simp_all
  ultimately show ?thesis
    using assms(3) by (simp only: nth_eq_iff_index_eq)
qed

lemma str_nat_nonempty: "str_nat n \<noteq> []"
  by (subst str_nat.simps) simp

lemma str_nat_last: "last (str_nat n) = ''0123456789'' ! (n mod 10)"
  by (subst str_nat.simps) simp

lemma str_nat_butlast: "butlast (str_nat n) = (if n < 10 then [] else str_nat (n div 10))"
  by (subst str_nat.simps) (simp add: butlast_append)

lemma str_nat_inj: "str_nat n = str_nat m \<Longrightarrow> n = m"
proof (induction n arbitrary: m rule: less_induct)
  case (less n)
  have "''0123456789'' ! (n mod 10) = ''0123456789'' ! (m mod 10)"
    using less.prems str_nat_last [of n] str_nat_last [of m] by simp
  then have units: "n mod 10 = m mod 10"
    by (intro digit_inj) simp_all
  have rest: "(if n < 10 then [] else str_nat (n div 10)) = (if m < 10 then [] else str_nat (m div 10))"
    using less.prems str_nat_butlast [of n] str_nat_butlast [of m] by simp
  show ?case
  proof (cases "n < 10")
    case True
    with rest have "m < 10"
      using str_nat_nonempty [of "m div 10"] by (auto split: if_splits)
    with True units show ?thesis by simp
  next
    case False
    with rest have m: "\<not> m < 10"
      using str_nat_nonempty [of "n div 10"] by (auto split: if_splits)
    with False rest have "str_nat (n div 10) = str_nat (m div 10)"
      by simp
    moreover have "n div 10 < n"
      using False by simp
    ultimately have "n div 10 = m div 10"
      by (rule less.IH [rotated])
    with units show ?thesis
      by (metis div_mult_mod_eq)
  qed
qed

lemma stored_id_inj: "stored_id did (int i) = stored_id did (int j) \<Longrightarrow> i = j"
  by (simp add: stored_id_def str_int_def str_nat_inj)

lemma batch_entries_ids:
  "map entry_id (batch_entries did chunks) = map (\<lambda>i. stored_id did (int i)) [0..<length chunks]"
  by (simp add: batch_entries_def comp_def)

lemma batch_entries_distinct: "distinct (map entry_id (batch_entries did chunks))"
  unfolding batch_entries_ids
  by (simp add: distinct_map inj_on_def stored_id_inj)

lemma upsert_holds: "e \<in> set (upsert e es)"
  by (induction es) simp_all

lemma upsert_keeps: "x \<in> set es \<Longrightarrow> entry_id x \<noteq> entry_id e \<Longrightarrow> x \<in> set (upsert e es)"
  by (induction es) auto

lemma foldl_upsert_keeps:
  "x \<in> set es \<Longrightarrow> entry_id x \<notin> entry_id ` set new
     \<Longrightarrow> x \<in> set (foldl (\<lambda>es e. upsert e es) es new)"
proof (induction new arbitrary: es)
  case Nil
  then show ?case by simp
next
  case (Cons e new)
  from Cons.prems have "x \<in> set (upsert e es)"
    by (intro upsert_keeps) auto
  moreover from Cons.prems have "entry_id x \<notin> entry_id ` set new"
    by auto
  ultimately show ?case
    using Cons.IH [of "upsert e es"] by simp
qed

lemma foldl_upsert_holds:
  "distinct (map entry_id new) \<Longrightarrow> x \<in> set new
     \<Longrightarrow> x \<in> set (foldl (\<lambda>es e. upsert e es) es new)"
proof (induction new arbitrary: es)
  case Nil
  then show ?case by simp
next
  case (Cons e new)
  show ?case
  proof (cases "x = e")
    case True
    have "e \<in> set (upsert e es)"
      by (rule upsert_holds)
    moreover have "entry_id e \<notin> entry_id ` set new"
      using Cons.prems(1) by auto
    ultimately have "e \<in> set (foldl (\<lambda>es e. upsert e es) (upsert e es) new)"
      by (rule foldl_upsert_keeps)
    with True show ?thesis by simp
  next
    case False
    with Cons.prems have "x \<in> set new" and "distinct (map entry_id new)"
      by auto
    then have "x \<in> set (foldl (\<lambda>es e. upsert e es) (upsert e es) new)"
      using Cons.IH by blast
    then show ?thesis by simp
  qed
qed

lemma add_documents_entries:
  assumes "add_documents b w name chunks did = (Inr (), w')"
  shows "\<exists>c'. collections w' name = Some c'
          \<and> coll_entries c' =
              foldl (\<lambda>es e. upsert e es)
                (case collections w name of None \<Rightarrow> [] | Some c0 \<Rightarrow> coll_entries c0)
                (batch_entries did chunks)"
proof -
  obtain c where c: "collections (create_collection w name False) name = Some c"
    and old: "coll_entries c = (case collections w name of None \<Rightarrow> [] | Some c0 \<Rightarrow> coll_entries c0)"
    using create_collection_held [of w name] by blast
  have ok: "add_fault b = None"
    using assms c
    by (simp add: add_documents_def Let_def get_collection_def batch_loop_start collection_add_def
        split: option.splits)
  let ?c' = "c\<lparr>coll_entries := foldl (\<lambda>es e. upsert e es) (coll_entries c) (batch_entries did chunks)\<rparr>"
  have "w' = (create_collection w name False)\<lparr>collections :=
      (collections (create_collection w name False))(name \<mapsto> ?c')\<rparr>"
    using assms c ok
    by (simp add: add_documents_def Let_def get_collection_def batch_loop_start collection_add_def batch_zip)
  then have "collections w' name = Some ?c'"
    by simp
  then show ?thesis
    by (simp add: old)
qed

lemma add_documents_holds_batch:
  assumes "add_documents b w name chunks did = (Inr (), w')" and "i < length chunks"
  shows "\<exists>c'. collections w' name = Some c' \<and> batch_entries did chunks ! i \<in> set (coll_entries c')"
proof -
  obtain c' where c': "collections w' name = Some c'"
    and es: "coll_entries c' =
              foldl (\<lambda>es e. upsert e es)
                (case collections w name of None \<Rightarrow> [] | Some c0 \<Rightarrow> coll_entries c0)
                (batch_entries did chunks)"
    using add_documents_entries [OF assms(1)] by blast
  have "batch_entries did chunks ! i \<in> set (batch_entries did chunks)"
    using assms(2) by (simp add: batch_entries_def)
  then have "batch_entries did chunks ! i \<in> set (coll_entries c')"
    unfolding es using batch_entries_distinct by (rule foldl_upsert_holds [rotated])
  with c' show ?thesis by blast
qed

lemma add_documents_ok:
  assumes "add_fault b = None"
  shows "fst (add_documents b w name chunks did) = Inr ()
         \<and> files (snd (add_documents b w name chunks did)) = files w"
  using assms
  by (simp add: add_documents_def Let_def get_collection_def create_collection_def
      collection_add_def split: option.splits prod.splits)


text \<open>
  Claim C9. For every batch of chunks and document id, a call of \<open>add_documents\<close> that the
  index accepts returns normally, and after it the collection holds, for every position
  \<open>i\<close> of the batch, the passage with the id \<open>{document_id}_chunk_{i}\<close>, the text of the
  chunk at \<open>i\<close>, and that chunk's metadata with \<open>document_id\<close> set to the given id and
  \<open>chunk_index\<close> set to \<open>i\<close>, whatever the chunk's own metadata held under these two keys.
  Every passage of the collection was there before the call or is one of these. Each of
  these passages matches the filter of \<open>delete_document\<close>, and a delete by this document id
  that the index carries out leaves no passage with this document id. These passages are
  what the loop of \<open>add_documents\<close> builds, position by position.
\<close>

theorem add_documents_invariant:
  "(\<forall>i<length chunks.
       fst (batch_loop did 0 chunks ([], [], [])) ! i = did @ ''_chunk_'' @ str_int (int i)
     \<and> fst (snd (batch_loop did 0 chunks ([], [], []))) ! i = chunk_text (chunks ! i)
     \<and> snd (snd (batch_loop did 0 chunks ([], [], []))) ! i
         = (or_empty (chunk_metadata (chunks ! i)))
             (''document_id'' \<mapsto> PStr did, ''chunk_index'' \<mapsto> PInt (int i))
     \<and> matches [(''document_id'', PStr did)] (snd (snd (batch_loop did 0 chunks ([], [], []))) ! i))
   \<and> (add_fault b = None \<longrightarrow> fst (add_documents b w name chunks did) = Inr ())
   \<and> (\<forall>w'. add_documents b w name chunks did = (Inr (), w') \<longrightarrow>
         (\<exists>c'. collections w' name = Some c'
            \<and> (\<forall>i<length chunks.
                  \<lparr>entry_id = did @ ''_chunk_'' @ str_int (int i),
                   entry_document = chunk_text (chunks ! i),
                   entry_metadata = (or_empty (chunk_metadata (chunks ! i)))
                     (''document_id'' \<mapsto> PStr did, ''chunk_index'' \<mapsto> PInt (int i))\<rparr>
                  \<in> set (coll_entries c'))
            \<and> (\<forall>e\<in>set (coll_entries c').
                  e \<in> set (case collections w name of None \<Rightarrow> [] | Some c0 \<Rightarrow> coll_entries c0)
                  \<or> (\<exists>i<length chunks.
                        e = \<lparr>entry_id = did @ ''_chunk_'' @ str_int (int i),
                             entry_document = chunk_text (chunks ! i),
                             entry_metadata = (or_empty (chunk_metadata (chunks ! i)))
                               (''document_id'' \<mapsto> PStr did, ''chunk_index'' \<mapsto> PInt (int i))\<rparr>))
            \<and> (\<forall>b'. delete_fault b' = None \<longrightarrow>
                  (\<exists>c''. collections (snd (delete_document b' w' name did)) name = Some c''
                     \<and> (\<forall>e\<in>set (coll_entries c'').
                           entry_metadata e ''document_id'' \<noteq> Some (PStr did))))))"
proof (intro conjI allI impI)
  fix i
  assume i: "i < length chunks"
  show "fst (batch_loop did 0 chunks ([], [], [])) ! i = did @ ''_chunk_'' @ str_int (int i)"
    using i by (simp add: batch_loop_start stored_id_def)
  show "fst (snd (batch_loop did 0 chunks ([], [], []))) ! i = chunk_text (chunks ! i)"
    using i by (simp add: batch_loop_start)
  show "snd (snd (batch_loop did 0 chunks ([], [], []))) ! i
         = (or_empty (chunk_metadata (chunks ! i)))
             (''document_id'' \<mapsto> PStr did, ''chunk_index'' \<mapsto> PInt (int i))"
    using i by (simp add: batch_loop_start stored_metadata_def)
  show "matches [(''document_id'', PStr did)] (snd (snd (batch_loop did 0 chunks ([], [], []))) ! i)"
    using i by (simp add: batch_loop_start matches_document_id stored_metadata_keys)
next
  assume "add_fault b = None"
  then show "fst (add_documents b w name chunks did) = Inr ()"
    by (simp add: add_documents_ok)
next
  fix w'
  assume added: "add_documents b w name chunks did = (Inr (), w')"
  then obtain c' where c': "collections w' name = Some c'"
    and es: "coll_entries c' =
              foldl (\<lambda>es e. upsert e es)
                (case collections w name of None \<Rightarrow> [] | Some c0 \<Rightarrow> coll_entries c0)
                (batch_entries did chunks)"
    using add_documents_entries by blast
  have sub: "set (coll_entries c') \<subseteq>
              set (case collections w name of None \<Rightarrow> [] | Some c0 \<Rightarrow> coll_entries c0)
              \<union> set (batch_entries did chunks)"
    unfolding es by (rule set_foldl_upsert)
  have at: "batch_entries did chunks ! i =
        \<lparr>entry_id = did @ ''_chunk_'' @ str_int (int i),
         entry_document = chunk_text (chunks ! i),
         entry_metadata = (or_empty (chunk_metadata (chunks ! i)))
           (''document_id'' \<mapsto> PStr did, ''chunk_index'' \<mapsto> PInt (int i))\<rparr>"
    if "i < length chunks" for i
    using that by (simp add: batch_entries_def stored_id_def stored_metadata_def)
  have held: "\<forall>i<length chunks.
        \<lparr>entry_id = did @ ''_chunk_'' @ str_int (int i),
         entry_document = chunk_text (chunks ! i),
         entry_metadata = (or_empty (chunk_metadata (chunks ! i)))
           (''document_id'' \<mapsto> PStr did, ''chunk_index'' \<mapsto> PInt (int i))\<rparr>
        \<in> set (coll_entries c')"
  proof (intro allI impI)
    fix i
    assume i: "i < length chunks"
    then have "batch_entries did chunks ! i \<in> set (batch_entries did chunks)"
      by (simp add: batch_entries_def)
    then have "batch_entries did chunks ! i \<in> set (coll_entries c')"
      unfolding es using batch_entries_distinct by (rule foldl_upsert_holds [rotated])
    then show "\<lparr>entry_id = did @ ''_chunk_'' @ str_int (int i),
         entry_document = chunk_text (chunks ! i),
         entry_metadata = (or_empty (chunk_metadata (chunks ! i)))
           (''document_id'' \<mapsto> PStr did, ''chunk_index'' \<mapsto> PInt (int i))\<rparr>
        \<in> set (coll_entries c')"
      by (simp only: at [OF i])
  qed
  have stored: "\<forall>e\<in>set (coll_entries c').
        e \<in> set (case collections w name of None \<Rightarrow> [] | Some c0 \<Rightarrow> coll_entries c0)
        \<or> (\<exists>i<length chunks.
              e = \<lparr>entry_id = did @ ''_chunk_'' @ str_int (int i),
                   entry_document = chunk_text (chunks ! i),
                   entry_metadata = (or_empty (chunk_metadata (chunks ! i)))
                     (''document_id'' \<mapsto> PStr did, ''chunk_index'' \<mapsto> PInt (int i))\<rparr>)"
  proof
    fix e
    assume "e \<in> set (coll_entries c')"
    with sub have "e \<in> set (case collections w name of None \<Rightarrow> [] | Some c0 \<Rightarrow> coll_entries c0)
        \<or> e \<in> set (batch_entries did chunks)"
      by blast
    then show "e \<in> set (case collections w name of None \<Rightarrow> [] | Some c0 \<Rightarrow> coll_entries c0)
        \<or> (\<exists>i<length chunks.
              e = \<lparr>entry_id = did @ ''_chunk_'' @ str_int (int i),
                   entry_document = chunk_text (chunks ! i),
                   entry_metadata = (or_empty (chunk_metadata (chunks ! i)))
                     (''document_id'' \<mapsto> PStr did, ''chunk_index'' \<mapsto> PInt (int i))\<rparr>)"
      by (auto simp add: batch_entries_def stored_id_def stored_metadata_def)
  qed
  have covered: "\<forall>b'. delete_fault b' = None \<longrightarrow>
        (\<exists>c''. collections (snd (delete_document b' w' name did)) name = Some c''
           \<and> (\<forall>e\<in>set (coll_entries c''). entry_metadata e ''document_id'' \<noteq> Some (PStr did)))"
    by (simp add: delete_document_ok [OF c'])
  show "\<exists>c'. collections w' name = Some c'
            \<and> (\<forall>i<length chunks.
                  \<lparr>entry_id = did @ ''_chunk_'' @ str_int (int i),
                   entry_document = chunk_text (chunks ! i),
                   entry_metadata = (or_empty (chunk_metadata (chunks ! i)))
                     (''document_id'' \<mapsto> PStr did, ''chunk_index'' \<mapsto> PInt (int i))\<rparr>
                  \<in> set (coll_entries c'))
            \<and> (\<forall>e\<in>set (coll_entries c').
                  e \<in> set (case collections w name of None \<Rightarrow> [] | Some c0 \<Rightarrow> coll_entries c0)
                  \<or> (\<exists>i<length chunks.
                        e = \<lparr>entry_id = did @ ''_chunk_'' @ str_int (int i),
                             entry_document = chunk_text (chunks ! i),
                             entry_metadata = (or_empty (chunk_metadata (chunks ! i)))
                               (''document_id'' \<mapsto> PStr did, ''chunk_index'' \<mapsto> PInt (int i))\<rparr>))
            \<and> (\<forall>b'. delete_fault b' = None \<longrightarrow>
                  (\<exists>c''. collections (snd (delete_document b' w' name did)) name = Some c''
                     \<and> (\<forall>e\<in>set (coll_entries c'').
                           entry_metadata e ''document_id'' \<noteq> Some (PStr did))))"
    using c' held stored covered by blast
qed

lemma str_int_digit: "str_int 0 = ''0''" "str_int 1 = ''1''"
  by (simp_all add: str_int_def str_nat.simps)

text \<open>
  The statement at a batch of two chunks, the first with a stale \<open>document_id\<close> and
  \<open>chunk_index\<close> of its own, added to an empty store under the id \<open>notes\<close>: the call
  returns, the collection then holds the two passages \<open>notes_chunk_0\<close> and
  \<open>notes_chunk_1\<close> with the new \<open>document_id\<close> and \<open>chunk_index\<close>, and a delete by \<open>notes\<close>
  leaves none of them.
\<close>

theorem add_documents_invariant_witness:
  "Suc 0 < length demo_chunks
   \<and> fst (batch_loop ''notes'' 0 demo_chunks ([], [], [])) ! Suc 0 = ''notes_chunk_1''
   \<and> add_fault working_backend = None
   \<and> add_documents working_backend empty_world ''documents'' demo_chunks ''notes''
       = (Inr (), snd (add_documents working_backend empty_world ''documents'' demo_chunks ''notes''))
   \<and> (\<exists>c. collections (snd (add_documents working_backend empty_world ''documents'' demo_chunks ''notes''))
             ''documents'' = Some c
          \<and> \<lparr>entry_id = ''notes_chunk_0'', entry_document = ''alpha'',
              entry_metadata = [''document_id'' \<mapsto> PStr ''stale'', ''chunk_index'' \<mapsto> PInt 9,
                                ''page_number'' \<mapsto> PInt 1]
                (''document_id'' \<mapsto> PStr ''notes'', ''chunk_index'' \<mapsto> PInt 0)\<rparr>
             \<in> set (coll_entries c)
          \<and> \<lparr>entry_id = ''notes_chunk_1'', entry_document = ''beta'',
              entry_metadata = [''document_id'' \<mapsto> PStr ''notes'', ''chunk_index'' \<mapsto> PInt 1]\<rparr>
             \<in> set (coll_entries c)
          \<and> map entry_id (coll_entries c) = [''notes_chunk_0'', ''notes_chunk_1''])
   \<and> delete_fault working_backend = None
   \<and> (\<exists>c. collections (snd (delete_document working_backend
                (snd (add_documents working_backend empty_world ''documents'' demo_chunks ''notes''))
                ''documents'' ''notes'')) ''documents'' = Some c
          \<and> (\<forall>e\<in>set (coll_entries c). entry_metadata e ''document_id'' \<noteq> Some (PStr ''notes'')))"
proof -
  let ?w' = "snd (add_documents working_backend empty_world ''documents'' demo_chunks ''notes'')"
  have len: "length demo_chunks = Suc (Suc 0)"
    by (simp add: demo_chunks_def)
  have chunk0: "demo_chunks ! 0 = \<lparr>chunk_text = ''alpha'',
       chunk_metadata = Some [''document_id'' \<mapsto> PStr ''stale'', ''chunk_index'' \<mapsto> PInt 9,
                              ''page_number'' \<mapsto> PInt 1]\<rparr>"
    and chunk1: "demo_chunks ! Suc 0 = \<lparr>chunk_text = ''beta'', chunk_metadata = None\<rparr>"
    by (simp_all add: demo_chunks_def)
  have ok: "delete_fault working_backend = None" and accepts: "add_fault working_backend = None"
    by (simp_all add: working_backend_def)
  have zero: "0 < length demo_chunks" and one: "Suc 0 < length demo_chunks"
    by (simp_all add: len)
  note inv = add_documents_invariant [of demo_chunks "''notes''" working_backend empty_world
      "''documents''"]
  note loop = inv [THEN conjunct1, rule_format]
  note returns = inv [THEN conjunct2, THEN conjunct1, rule_format]
  note store = inv [THEN conjunct2, THEN conjunct2, rule_format]
  have "fst (add_documents working_backend empty_world ''documents'' demo_chunks ''notes'') = Inr ()"
    using accepts by (rule returns)
  then have added: "add_documents working_backend empty_world ''documents'' demo_chunks ''notes''
       = (Inr (), ?w')"
    by (simp add: prod_eq_iff)
  have id1: "fst (batch_loop ''notes'' 0 demo_chunks ([], [], [])) ! Suc 0 = ''notes_chunk_1''"
    using loop [OF one] by (simp add: str_int_digit)
  obtain c where c: "collections ?w' ''documents'' = Some c"
    and held: "\<And>i. i < length demo_chunks \<Longrightarrow>
        \<lparr>entry_id = ''notes'' @ ''_chunk_'' @ str_int (int i),
         entry_document = chunk_text (demo_chunks ! i),
         entry_metadata = (or_empty (chunk_metadata (demo_chunks ! i)))
           (''document_id'' \<mapsto> PStr ''notes'', ''chunk_index'' \<mapsto> PInt (int i))\<rparr>
        \<in> set (coll_entries c)"
    and covered: "\<And>b'. delete_fault b' = None \<Longrightarrow>
        \<exists>c''. collections (snd (delete_document b' ?w' ''documents'' ''notes'')) ''documents'' = Some c''
           \<and> (\<forall>e\<in>set (coll_entries c''). entry_metadata e ''document_id'' \<noteq> Some (PStr ''notes''))"
    using store [OF added] by (elim exE conjE) simp
  have first: "\<lparr>entry_id = ''notes_chunk_0'', entry_document = ''alpha'',
              entry_metadata = [''document_id'' \<mapsto> PStr ''stale'', ''chunk_index'' \<mapsto> PInt 9,
                                ''page_number'' \<mapsto> PInt 1]
                (''document_id'' \<mapsto> PStr ''notes'', ''chunk_index'' \<mapsto> PInt 0)\<rparr>
             \<in> set (coll_entries c)"
    using held [OF zero] by (simp add: chunk0 or_empty_def str_int_digit)
  have second: "\<lparr>entry_id = ''notes_chunk_1'', entry_document = ''beta'',
              entry_metadata = [''document_id'' \<mapsto> PStr ''notes'', ''chunk_index'' \<mapsto> PInt 1]\<rparr>
             \<in> set (coll_entries c)"
    using held [OF one] by (simp add: chunk1 or_empty_def str_int_digit)
  have ids: "map entry_id (coll_entries c) = [''notes_chunk_0'', ''notes_chunk_1'']"
  proof -
    obtain c' where c': "collections ?w' ''documents'' = Some c'"
      and es: "coll_entries c' =
              foldl (\<lambda>es e. upsert e es)
                (case collections empty_world ''documents'' of None \<Rightarrow> [] | Some c0 \<Rightarrow> coll_entries c0)
                (batch_entries ''notes'' demo_chunks)"
      using add_documents_entries [OF added] by (elim exE conjE)
    have same: "c' = c"
      using c c' by simp
    have range: "[0..<length demo_chunks] = [0, Suc 0]"
      by (simp add: len)
    have batch: "map entry_id (batch_entries ''notes'' demo_chunks) = [''notes_chunk_0'', ''notes_chunk_1'']"
      unfolding batch_entries_ids range by (simp add: stored_id_def str_int_digit)
    have none: "(case collections empty_world ''documents'' of None \<Rightarrow> [] | Some c0 \<Rightarrow> coll_entries c0) = []"
      by (simp add: empty_world_def)
    obtain e0 e1 where two: "batch_entries ''notes'' demo_chunks = [e0, e1]"
      unfolding batch_entries_def range by simp
    from batch have "entry_id e0 = ''notes_chunk_0''" and "entry_id e1 = ''notes_chunk_1''"
      unfolding two by simp_all
    then show ?thesis
      using es unfolding same none two by simp
  qed
  have stored: "\<exists>c. collections ?w' ''documents'' = Some c
          \<and> \<lparr>entry_id = ''notes_chunk_0'', entry_document = ''alpha'',
              entry_metadata = [''document_id'' \<mapsto> PStr ''stale'', ''chunk_index'' \<mapsto> PInt 9,
                                ''page_number'' \<mapsto> PInt 1]
                (''document_id'' \<mapsto> PStr ''notes'', ''chunk_index'' \<mapsto> PInt 0)\<rparr>
             \<in> set (coll_entries c)
          \<and> \<lparr>entry_id = ''notes_chunk_1'', entry_document = ''beta'',
              entry_metadata = [''document_id'' \<mapsto> PStr ''notes'', ''chunk_index'' \<mapsto> PInt 1]\<rparr>
             \<in> set (coll_entries c)
          \<and> map entry_id (coll_entries c) = [''notes_chunk_0'', ''notes_chunk_1'']"
    using c first second ids by (intro exI [of _ c] conjI)
  have gone: "\<exists>c. collections (snd (delete_document working_backend ?w' ''documents'' ''notes''))
             ''documents'' = Some c
          \<and> (\<forall>e\<in>set (coll_entries c). entry_metadata e ''document_id'' \<noteq> Some (PStr ''notes''))"
    using ok by (rule covered)
  show ?thesis
    using one id1 accepts added stored ok gone by (intro conjI)
qed

section \<open>Properties of the ingestion pipeline\<close>

lemma create_collection_files: "files (create_collection w name r) = files w"
  by (simp add: create_collection_def Let_def split: option.splits)

lemma add_documents_fault:
  assumes "add_fault b = Some e"
  shows "add_documents b w name chunks did = (Inl e, create_collection w name False)"
proof -
  obtain c where c: "collections (create_collection w name False) name = Some c"
    using create_collection_held [of w name] by blast
  show ?thesis
    using assms c
    by (simp add: add_documents_def Let_def get_collection_def collection_add_def split: prod.splits)
qed

lemma extract_text_missing:
  "files w p = None \<Longrightarrow> \<exists>e. extract_text ev w p = Inl e"
  by (simp add: extract_text_def)

lemma extract_text_result:
  "\<exists>r. extract_text ev (w\<lparr>stdout := out\<rparr>) p = r \<and> extract_text ev w p = r"
  by (simp add: extract_text_def)

lemma extract_text_opened:
  assumes "files w p = Some bytes" and "fitz_open ev bytes = Inr doc"
  shows "\<exists>pdf. extract_text ev w p = Inr pdf"
  using assms by (simp add: extract_text_def Let_def split: prod.splits)

text \<open>
  Claim C1. When the write to the index fails, \<open>process_pdf\<close> ends by an exception and
  the files are as they were before the call: the copy under the uploads directory is
  not written, since the copy comes after \<open>add_documents\<close>. When the extraction had
  succeeded, the exception is the one of the index.
\<close>

theorem process_pdf_index_failure:
  assumes "add_fault b = Some e"
  shows "files (snd (process_pdf ev b tc w pdf_path document_id collection_name)) = files w
         \<and> (\<exists>e'. fst (process_pdf ev b tc w pdf_path document_id collection_name) = Inl e')
         \<and> (\<forall>bytes doc. files w pdf_path = Some bytes \<and> fitz_open ev bytes = Inr doc \<longrightarrow>
               fst (process_pdf ev b tc w pdf_path document_id collection_name) = Inl e)"
proof -
  let ?w1 = "w\<lparr>stdout := stdout w @ [''Processing PDF: '' @ path_name ev pdf_path]\<rparr>"
  show ?thesis
  proof (cases "extract_text ev ?w1 pdf_path")
    case (Inl e')
    then have run: "process_pdf ev b tc w pdf_path document_id collection_name = (Inl e', ?w1)"
      by (simp add: process_pdf_def Let_def)
    have "\<forall>bytes doc. \<not> (files w pdf_path = Some bytes \<and> fitz_open ev bytes = Inr doc)"
    proof (intro allI notI)
      fix bytes doc
      assume "files w pdf_path = Some bytes \<and> fitz_open ev bytes = Inr doc"
      then have "\<exists>pdf. extract_text ev ?w1 pdf_path = Inr pdf"
        using extract_text_opened [of ?w1 pdf_path bytes ev doc] by simp
      with Inl show False by simp
    qed
    then show ?thesis
      by (auto simp add: run)
  next
    case (Inr pdf)
    then have "\<exists>w2. process_pdf ev b tc w pdf_path document_id collection_name = (Inl e, w2)
        \<and> files w2 = files w"
      using assms
      by (simp add: process_pdf_def Let_def add_documents_fault create_collection_files)
    then show ?thesis
      by auto
  qed
qed


lemma demo_paths:
  "posix_name ''inbox/notes.pdf'' = ''notes.pdf''"
  "posix_stem ''inbox/notes.pdf'' = ''notes''"
  by (simp_all add: posix_stem_def posix_name_def Let_def)

lemma demo_extract:
  "extract_text demo_env (demo_world\<lparr>stdout := out\<rparr>) ''inbox/notes.pdf'' =
     Inr \<lparr>pd_text = ''Hello world'' @ [CHR 0x0A, CHR 0x0A],
          pd_pages = [\<lparr>page_text = ''Hello world'', page_number = 1\<rparr>,
                      \<lparr>page_text = [], page_number = 2\<rparr>],
          pd_metadata = [''title'' \<mapsto> [], ''author'' \<mapsto> ''Ada'', ''subject'' \<mapsto> [],
                         ''creator'' \<mapsto> []],
          pd_num_pages = 2\<rparr>"
  by (simp add: extract_text_def demo_env_def demo_world_def get_str_def)

text \<open>
  The statement at the file \<open>inbox/notes.pdf\<close>, on an index whose writes fail: the
  exception of the index comes back and there is no \<open>uploads/notes.pdf\<close>.
\<close>

theorem process_pdf_index_failure_witness:
  "add_fault failing_backend = Some (IndexFailure ''index unavailable'')
   \<and> files demo_world ''inbox/notes.pdf'' = Some ''%PDF''
   \<and> fitz_open demo_env ''%PDF''
       = Inr \<lparr>fitz_pages = [''Hello world'', []],
              fitz_metadata = Some [''format'' \<mapsto> ''PDF 1.7'', ''author'' \<mapsto> ''Ada'']\<rparr>
   \<and> fst (process_pdf demo_env failing_backend (TextChunker_init CHUNK_SIZE CHUNK_OVERLAP)
          demo_world ''inbox/notes.pdf'' None ''documents'')
       = Inl (IndexFailure ''index unavailable'')
   \<and> files (snd (process_pdf demo_env failing_backend (TextChunker_init CHUNK_SIZE CHUNK_OVERLAP)
          demo_world ''inbox/notes.pdf'' None ''documents'')) ''uploads/notes.pdf'' = None"
proof -
  have fault: "add_fault failing_backend = Some (IndexFailure ''index unavailable'')"
    by (simp add: failing_backend_def)
  have held: "files demo_world ''inbox/notes.pdf'' = Some ''%PDF''"
    by (simp add: demo_world_def)
  have opened: "fitz_open demo_env ''%PDF''
       = Inr \<lparr>fitz_pages = [''Hello world'', []],
              fitz_metadata = Some [''format'' \<mapsto> ''PDF 1.7'', ''author'' \<mapsto> ''Ada'']\<rparr>"
    by (simp add: demo_env_def)
  have none: "files demo_world ''uploads/notes.pdf'' = None"
    by (simp add: demo_world_def)
  show ?thesis
    using process_pdf_index_failure [OF fault, of demo_env "TextChunker_init CHUNK_SIZE CHUNK_OVERLAP"
        demo_world "''inbox/notes.pdf''" None "''documents''"]
      fault held opened none
    by simp
qed

lemma pair_eqD: "p = (a, b) \<Longrightarrow> fst p = a \<and> snd p = b"
  by simp

lemma extract_text_title:
  assumes "extract_text ev w p = Inr pdf"
  shows "pd_metadata pdf ''title'' \<noteq> None"
  using assms
  by (auto simp add: extract_text_def Let_def split: option.splits sum.splits prod.splits)

text \<open>
  Claim C7 fails on the code. \<open>extract_text\<close> always puts a \<open>title\<close> key into the metadata
  it returns, the empty string when the PDF has no title (lemma \<open>extract_text_title\<close>), so
  the default of \<open>pdf_data["metadata"].get("title", pdf_path.stem)\<close> is never used. For
  \<open>inbox/notes.pdf\<close>, whose metadata has no title, the title of the document metadata is
  the empty string and not the stem \<open>notes\<close>.
\<close>

theorem process_pdf_title_not_stem:
  "path_stem demo_env ''inbox/notes.pdf'' = ''notes''
   \<and> fitz_metadata \<lparr>fitz_pages = [''Hello world'', []],
          fitz_metadata = Some [''format'' \<mapsto> ''PDF 1.7'', ''author'' \<mapsto> ''Ada'']\<rparr> \<noteq> None
   \<and> (case fst (process_pdf demo_env working_backend (TextChunker_init CHUNK_SIZE CHUNK_OVERLAP)
            demo_world ''inbox/notes.pdf'' None ''documents'') of
         Inl e \<Rightarrow> None
       | Inr r \<Rightarrow> res_metadata r ''title'') = Some (PStr [])"
proof -
  have stem: "path_stem demo_env ''inbox/notes.pdf'' = ''notes''"
    by (simp add: demo_env_def demo_paths)
  have name: "path_name demo_env ''inbox/notes.pdf'' = ''notes.pdf''"
    by (simp add: demo_env_def demo_paths)
  have ok: "add_fault working_backend = None"
    by (simp add: working_backend_def)
  have held: "files demo_world ''inbox/notes.pdf'' = Some ''%PDF''"
    by (simp add: demo_world_def)
  show ?thesis
    using add_documents_ok [OF ok]
    by (auto simp add: stem name process_pdf_def Let_def demo_extract get_str_def copy2_def held
        split: prod.splits sum.splits option.splits dest!: pair_eqD)
qed

section \<open>Properties of the RAG service\<close>

lemma format_loop_total:
  "list_all (\<lambda>c. cc_text c \<noteq> None) cs \<Longrightarrow> \<exists>parts. format_loop i cs acc = Inr parts"
  by (induction cs arbitrary: i acc) (auto simp add: Let_def)

lemma format_context_total:
  assumes "list_all (\<lambda>c. cc_text c \<noteq> None) cs"
  shows "\<exists>context. format_context cs = Inr context"
proof -
  obtain parts where "format_loop 1 cs [] = Inr parts"
    using format_loop_total [OF assms] by blast
  then show ?thesis
    by (simp add: format_context_def)
qed

lemma stream_history_loop_eq: "stream_history_loop h m = answer_history_loop h m"
  by (induction h arbitrary: m) simp_all

lemma stream_sources_loop_eq: "stream_sources_loop cs st = answer_sources_loop cs st"
  by (induction cs st rule: answer_sources_loop.induct) (simp_all add: Let_def)

lemma stream_loop_eq:
  "stream_loop fragments yielded = yielded @ map Content (filter (\<lambda>f. f \<noteq> []) fragments)"
  by (induction fragments arbitrary: yielded) simp_all

lemma concat_nonempty: "concat (filter (\<lambda>f. f \<noteq> []) fs) = concat fs"
  by (induction fs) simp_all

lemma content_events:
  "list_all (\<lambda>e. event_type e = ''content'') (map Content fs)"
  "map content_data (map Content fs) = fs"
  by (induction fs) simp_all









lemma example_sources:
  "fst (answer_sources_loop example_chunks ([], {})) =
     [\<lparr>src_document_id = PStr ''doc1'', src_filename = PStr ''doc1.pdf'',
       src_page_number = PInt 1, src_similarity = Some (9 / 10)\<rparr>,
      \<lparr>src_document_id = PStr ''doc1'', src_filename = PStr ''doc1.pdf'',
       src_page_number = PInt 2, src_similarity = Some (6 / 10)\<rparr>]"
  by (simp add: example_chunks_def Let_def get_or_def)

lemma example_texts: "list_all (\<lambda>c. cc_text c \<noteq> None) example_chunks"
  by (simp add: example_chunks_def)



text \<open>
  Claim C3. With a deterministic generation stub, and chunks that each have a text, the
  blocking \<open>generate_answer\<close> returns a result, and \<open>generate_answer_stream\<close> for the same
  query, chunks and history ends normally after yielding a sequence whose last element
  is of type \<open>sources\<close> and carries the sources list and the context count of the
  blocking result; every element before it is of type \<open>content\<close>, and the concatenation
  of their data is the answer of the blocking result.
\<close>

theorem stream_matches_blocking:
  assumes "list_all (\<lambda>c. cc_text c \<noteq> None) cs"
  shows "\<exists>r evs.
           generate_answer (deterministic_llm gen) q cs h = Inr r
         \<and> generate_answer_stream (deterministic_llm gen) q cs h
             = (evs @ [Sources (ans_sources r) (ans_context_used r)], None)
         \<and> list_all (\<lambda>e. event_type e = ''content'') evs
         \<and> concat (map content_data evs) = ans_answer r"
proof -
  obtain ctx where ctx: "format_context cs = Inr ctx"
    using format_context_total [OF assms] by blast
  let ?prompt = "''Context from documents:'' @ newline @ newline @ ctx @ newline @ newline
                 @ ''---'' @ newline @ newline @ ''Question: '' @ q @ newline @ newline
                 @ ''Answer the question based on the context above. If you reference specific information, mention the page number.''"
  let ?messages = "(case h of
                     None \<Rightarrow> [SystemMessage system_prompt]
                   | Some history \<Rightarrow>
                       if history \<noteq> []
                       then answer_history_loop (drop (length history - 6) history)
                              [SystemMessage system_prompt]
                       else [SystemMessage system_prompt]) @ [HumanMessage ?prompt]"
  let ?r = "\<lparr>ans_answer = concat (gen ?messages),
             ans_sources = fst (answer_sources_loop cs ([], {})),
             ans_context_used = int (length cs)\<rparr>"
  let ?evs = "map Content (filter (\<lambda>f. f \<noteq> []) (gen ?messages))"
  have blocking: "generate_answer (deterministic_llm gen) q cs h = Inr ?r"
    by (simp add: generate_answer_def ctx Let_def deterministic_llm_def)
  have streaming: "generate_answer_stream (deterministic_llm gen) q cs h
      = (?evs @ [Sources (ans_sources ?r) (ans_context_used ?r)], None)"
    by (cases h)
      (simp_all add: generate_answer_stream_def ctx Let_def deterministic_llm_def
        stream_history_loop_eq stream_sources_loop_eq stream_loop_eq)
  have types: "list_all (\<lambda>e. event_type e = ''content'') ?evs"
    by (rule content_events)
  have joined: "concat (map content_data ?evs) = ans_answer ?r"
    unfolding content_events(2) concat_nonempty by simp
  show ?thesis
    using blocking streaming types joined by blast
qed

lemma stub_stream:
  assumes "list_all (\<lambda>c. cc_text c \<noteq> None) cs"
  shows "generate_answer_stream stub_llm q cs h =
     ([Content ''The '', Content ''answer'',
       Sources (fst (answer_sources_loop cs ([], {}))) (int (length cs))], None)"
proof -
  obtain ctx where "format_context cs = Inr ctx"
    using format_context_total [OF assms] by blast
  then show ?thesis
    by (simp add: generate_answer_stream_def Let_def stub_llm_def deterministic_llm_def
        stream_sources_loop_eq)
qed

text \<open>
  The statement at the example chunks, a history of two turns and a stub whose fragments
  are \<open>The \<close>, the empty string and \<open>answer\<close>: the stream is the two non-empty
  fragments and then the sources.
\<close>

theorem stream_matches_blocking_witness:
  "list_all (\<lambda>c. cc_text c \<noteq> None) example_chunks
   \<and> (\<exists>r evs.
         generate_answer stub_llm ''What does page 1 say?'' example_chunks
           (Some [\<lparr>turn_role = ''user'', turn_content = ''Hello''\<rparr>,
                  \<lparr>turn_role = ''assistant'', turn_content = ''Hi''\<rparr>]) = Inr r
       \<and> generate_answer_stream stub_llm ''What does page 1 say?'' example_chunks
           (Some [\<lparr>turn_role = ''user'', turn_content = ''Hello''\<rparr>,
                  \<lparr>turn_role = ''assistant'', turn_content = ''Hi''\<rparr>])
           = (evs @ [Sources (ans_sources r) (ans_context_used r)], None)
       \<and> list_all (\<lambda>e. event_type e = ''content'') evs
       \<and> concat (map content_data evs) = ans_answer r)
   \<and> generate_answer_stream stub_llm ''What does page 1 say?'' example_chunks
           (Some [\<lparr>turn_role = ''user'', turn_content = ''Hello''\<rparr>,
                  \<lparr>turn_role = ''assistant'', turn_content = ''Hi''\<rparr>])
       = ([Content ''The '', Content ''answer'',
           Sources
             [\<lparr>src_document_id = PStr ''doc1'', src_filename = PStr ''doc1.pdf'',
               src_page_number = PInt 1, src_similarity = Some (9 / 10)\<rparr>,
              \<lparr>src_document_id = PStr ''doc1'', src_filename = PStr ''doc1.pdf'',
               src_page_number = PInt 2, src_similarity = Some (6 / 10)\<rparr>] 3], None)"
proof -
  have run: "generate_answer_stream stub_llm ''What does page 1 say?'' example_chunks
           (Some [\<lparr>turn_role = ''user'', turn_content = ''Hello''\<rparr>,
                  \<lparr>turn_role = ''assistant'', turn_content = ''Hi''\<rparr>])
       = ([Content ''The '', Content ''answer'',
           Sources
             [\<lparr>src_document_id = PStr ''doc1'', src_filename = PStr ''doc1.pdf'',
               src_page_number = PInt 1, src_similarity = Some (9 / 10)\<rparr>,
              \<lparr>src_document_id = PStr ''doc1'', src_filename = PStr ''doc1.pdf'',
               src_page_number = PInt 2, src_similarity = Some (6 / 10)\<rparr>] 3], None)"
    by (simp add: stub_stream [OF example_texts] example_sources) (simp add: example_chunks_def)
  show ?thesis
    using example_texts
      stream_matches_blocking [OF example_texts, of "\<lambda>messages. [''The '', [], ''answer'']"
        "''What does page 1 say?''"
        "Some [\<lparr>turn_role = ''user'', turn_content = ''Hello''\<rparr>,
               \<lparr>turn_role = ''assistant'', turn_content = ''Hi''\<rparr>]"]
      run
    unfolding stub_llm_def by (intro conjI)
qed

lemma context_loop_keys:
  "list_all (\<lambda>c. cc_page_number c \<noteq> None \<and> cc_filename c \<noteq> None) acc
     \<Longrightarrow> list_all (\<lambda>c. cc_page_number c \<noteq> None \<and> cc_filename c \<noteq> None) (context_loop rows acc)"
  by (induction rows acc rule: context_loop.induct) simp_all

lemma retrieve_context_keys:
  assumes "retrieve_context b w q name n did = Inr cs"
  shows "list_all (\<lambda>c. cc_page_number c \<noteq> None \<and> cc_filename c \<noteq> None) cs"
  using assms context_loop_keys [of "[]"]
  by (auto simp add: retrieve_context_def Let_def split: sum.splits)

lemma format_context_missing_keys:
  "format_context [\<lparr>cc_text = Some t, cc_page_number = None, cc_document_id = d,
                    cc_filename = None, cc_similarity = s\<rparr>]
     = Inr (''[Source 1 - Unknown, Page N/A]'' @ newline @ t)"
  by (simp add: format_context_def Let_def get_or_def str_int_digit)

text \<open>
  Claim C10 fails on the code. \<open>retrieve_context\<close> stores \<open>metadata.get("page_number")\<close>
  and \<open>metadata.get("filename")\<close> under keys that are therefore always present, with the
  value \<open>None\<close> when the passage has no such metadata (lemma \<open>retrieve_context_keys\<close>); the
  defaults of \<open>chunk.get("page_number", "N/A")\<close> and \<open>chunk.get("filename", "Unknown")\<close> apply
  only to a missing key (lemma \<open>format_context_missing_keys\<close>). For a passage that
  \<open>add_documents\<close> stored from a chunk without metadata, the chunk retrieved has both
  values \<open>None\<close> and its header reads \<open>[Source 1 - None, Page None]\<close>. The function
  itself never raises when every chunk has a text (lemma \<open>format_context_total\<close>).
\<close>

theorem format_context_none_rendered:
  "retrieve_context working_backend
       (snd (add_documents working_backend empty_world ''documents''
               [\<lparr>chunk_text = ''beta'', chunk_metadata = None\<rparr>] ''notes''))
       ''beta'' ''documents'' 5 (Some ''notes'')
     = Inr [unlabelled_chunk]
   \<and> format_context [unlabelled_chunk] = Inr (''[Source 1 - None, Page None]'' @ newline @ ''beta'')"
proof -
  have stored: "snd (add_documents working_backend empty_world ''documents''
               [\<lparr>chunk_text = ''beta'', chunk_metadata = None\<rparr>] ''notes'')
      = \<lparr>collections = [''documents'' \<mapsto>
            \<lparr>coll_metadata = [''hnsw:space'' \<mapsto> ''cosine''],
             coll_entries = [\<lparr>entry_id = ''notes_chunk_0'', entry_document = ''beta'',
                entry_metadata = [''document_id'' \<mapsto> PStr ''notes'', ''chunk_index'' \<mapsto> PInt 0]\<rparr>]\<rparr>],
          files = Map.empty, stdout = []\<rparr>"
    by (simp add: add_documents_def Let_def create_collection_def get_collection_def
        empty_world_def collection_add_def working_backend_def or_empty_def str_int_digit)
  have retrieved: "retrieve_context working_backend
       (snd (add_documents working_backend empty_world ''documents''
               [\<lparr>chunk_text = ''beta'', chunk_metadata = None\<rparr>] ''notes''))
       ''beta'' ''documents'' 5 (Some ''notes'')
     = Inr [unlabelled_chunk]"
    unfolding stored
    by (simp add: retrieve_context_def Let_def query_def get_collection_def working_backend_def
        demo_search_def matches_def first_or_empty_def dict_get_def get_or_def
        unlabelled_chunk_def)
  have rendered: "format_context [unlabelled_chunk]
      = Inr (''[Source 1 - None, Page None]'' @ newline @ ''beta'')"
    by (simp add: format_context_def Let_def get_or_def str_int_digit unlabelled_chunk_def)
  show ?thesis
    using retrieved rendered by (intro conjI)
qed

end
